theory Spec2Isabelle
  imports Complex_Main
begin

section \<open>JavaScript values\<close>

text \<open>
  A JavaScript \<^verbatim>\<open>number\<close> that was read from JSON or measured is modelled as a
  \<^typ>\<open>real\<close> (rounding of IEEE doubles and the infinities are left out). Arithmetic that
  the source performs on a value that may be \<^verbatim>\<open>undefined\<close> produces \<^verbatim>\<open>NaN\<close>, so
  the results of such arithmetic live in \<open>jsnum\<close>. An optional property, an array slot
  that may be missing and a variable that may hold \<^verbatim>\<open>undefined\<close> are an \<open>option\<close>,
  with \<open>None\<close> for \<^verbatim>\<open>undefined\<close>.
\<close>

datatype jsnum = NaN | Num real

datatype json =
    JNull
  | JBool bool
  | JNum real
  | JStr string
  | JArr "json list"
  | JObj "(string \<times> json) list"

type_synonym jsobject = "(string \<times> json) list"

text \<open>\<^verbatim>\<open>xs[i]\<close>: reading past the end of an array gives \<^verbatim>\<open>undefined\<close>.\<close>

definition js_index :: "'a list \<Rightarrow> nat \<Rightarrow> 'a option" where
  "js_index xs i = (if i < length xs then Some (xs ! i) else None)"

text \<open>\<^verbatim>\<open>v + 1\<close> for a number or \<^verbatim>\<open>undefined\<close>: \<^verbatim>\<open>undefined + 1\<close> is \<^verbatim>\<open>NaN\<close>.\<close>

fun js_plus_one :: "real option \<Rightarrow> jsnum" where
  "js_plus_one None = NaN"
| "js_plus_one (Some v) = Num (v + 1)"

text \<open>Truthiness of a number or \<^verbatim>\<open>undefined\<close>: \<^verbatim>\<open>undefined\<close> and \<^verbatim>\<open>0\<close> are falsy.\<close>

fun js_truthy_number :: "real option \<Rightarrow> bool" where
  "js_truthy_number None = False"
| "js_truthy_number (Some v) = (v \<noteq> 0)"

text \<open>Truthiness of a property read from a JSON object (\<open>None\<close>: the property is missing).\<close>

fun js_truthy :: "json option \<Rightarrow> bool" where
  "js_truthy None = False"
| "js_truthy (Some JNull) = False"
| "js_truthy (Some (JBool b)) = b"
| "js_truthy (Some (JNum v)) = (v \<noteq> 0)"
| "js_truthy (Some (JStr s)) = (s \<noteq> [])"
| "js_truthy (Some (JArr vs)) = True"
| "js_truthy (Some (JObj kvs)) = True"

text \<open>The arithmetic of \<^verbatim>\<open>number\<close> values that may be \<^verbatim>\<open>NaN\<close>.\<close>

fun js_to_number :: "real option \<Rightarrow> jsnum" where
  "js_to_number None = NaN"
| "js_to_number (Some v) = Num v"

fun js_add :: "jsnum \<Rightarrow> jsnum \<Rightarrow> jsnum" where
  "js_add (Num a) (Num b) = Num (a + b)"
| "js_add _ _ = NaN"

fun js_sub :: "jsnum \<Rightarrow> jsnum \<Rightarrow> jsnum" where
  "js_sub (Num a) (Num b) = Num (a - b)"
| "js_sub _ _ = NaN"

fun js_square :: "jsnum \<Rightarrow> jsnum" where
  "js_square (Num a) = Num (a * a)"
| "js_square NaN = NaN"

text \<open>Division by a positive count, as the aggregator does it.\<close>

fun js_div_count :: "jsnum \<Rightarrow> nat \<Rightarrow> jsnum" where
  "js_div_count (Num a) n = Num (a / real n)"
| "js_div_count NaN n = NaN"

text \<open>\<^verbatim>\<open>Math.sqrt\<close>: \<^verbatim>\<open>NaN\<close> for a negative argument and for \<^verbatim>\<open>NaN\<close>.\<close>

fun js_sqrt :: "jsnum \<Rightarrow> jsnum" where
  "js_sqrt (Num a) = (if a < 0 then NaN else Num (sqrt a))"
| "js_sqrt NaN = NaN"

text \<open>
  The property name that \<^verbatim>\<open>for (const id in test)\<close> yields for the array index \<open>n\<close>:
  its decimal digits.
\<close>

fun string_of_nat :: "nat \<Rightarrow> string" where
  "string_of_nat n =
     (if n < 10 then [''0123456789'' ! n]
      else string_of_nat (n div 10) @ [''0123456789'' ! (n mod 10)])"

declare string_of_nat.simps [simp del]


section \<open>Traversal metric: input preparation and evaluator adapter\<close>

text \<open>\<^verbatim>\<open>ITraversalTopology\<close> of \<^verbatim>\<open>CalculateOptimalTraversalMetric.ts\<close>.\<close>

record ITraversalTopology =
  nodeToIndex :: "string \<rightharpoonup> real"
  edgeListUnWeighted :: "real list list"
  edgeListRequestTime :: "real list list"
  edgeListDocumentSize :: "real list list"
  edgesInGraph :: "string \<rightharpoonup> real"
  metadataNode :: "jsobject list"
  traversalOrder :: "string list"
  traversalOrderEdges :: "real list list"

datatype topologyType = unweighted | httpRequestTime | documentSize

datatype searchType = full | reduced

text \<open>\<^verbatim>\<open>IMetricInput\<close>, the input of the external evaluator.\<close>

record IMetricInput =
  edgeList :: "jsnum list list"
  contributingNodes :: "jsnum list list"
  traversedPath :: "jsnum list list"
  numNodes :: nat
  roots :: "nat list"

text \<open>
  \<^verbatim>\<open>edgeList.map(x=>[x[0]+1, x[1]+1, x[2] ? x[2] : 1])\<close>. The weight is tested for
  truthiness, which an omitted weight and the weight \<open>0\<close> both fail.
\<close>

definition convertZeroIndexedToOneIndexed :: "real list list \<Rightarrow> jsnum list list" where
  "convertZeroIndexedToOneIndexed edges =
     map (\<lambda>x. [js_plus_one (js_index x 0),
               js_plus_one (js_index x 1),
               (if js_truthy_number (js_index x 2) then js_to_number (js_index x 2) else Num 1)])
         edges"

text \<open>
  The loop of \<^verbatim>\<open>prepareMetricInput\<close> over \<^verbatim>\<open>nodeMetaData\<close>: \<open>k\<close> is the index of the
  first record of the list.
\<close>

fun collectRoots :: "nat \<Rightarrow> jsobject list \<Rightarrow> nat list" where
  "collectRoots k [] = []"
| "collectRoots k (m # ms) =
     (if \<not> js_truthy (map_of m ''hasParent'')
      then (k + 1) # collectRoots (k + 1) ms
      else collectRoots (k + 1) ms)"

definition prepareMetricInput ::
  "ITraversalTopology \<Rightarrow> string list list \<Rightarrow> topologyType \<Rightarrow> IMetricInput" where
  "prepareMetricInput trackedTopology contributingDocuments metricType =
     (let selected = (case metricType of
                        unweighted \<Rightarrow> edgeListUnWeighted trackedTopology
                      | httpRequestTime \<Rightarrow> edgeListRequestTime trackedTopology
                      | documentSize \<Rightarrow> edgeListDocumentSize trackedTopology);
          relevantDocsOneIndexed =
            map (\<lambda>x. map (\<lambda>y. js_plus_one (nodeToIndex trackedTopology y)) x)
                contributingDocuments;
          nodeMetaData = metadataNode trackedTopology
      in \<lparr> edgeList = convertZeroIndexedToOneIndexed selected,
           contributingNodes = relevantDocsOneIndexed,
           traversedPath = convertZeroIndexedToOneIndexed (traversalOrderEdges trackedTopology),
           numNodes = length nodeMetaData,
           roots = collectRoots 0 nodeMetaData \<rparr>)"


section \<open>Measurements and errors of the benchmark runner\<close>

text \<open>
  What \<^verbatim>\<open>executeQuery\<close> attaches to a stream error as \<^verbatim>\<open>partialOutput\<close>: the object
  \<^verbatim>\<open>{ count, time, timestamps, metadata }\<close>. The value \<^verbatim>\<open>executeQuery\<close> resolves with
  has the same four properties and two more.
\<close>

record measurement =
  count :: nat
  time :: real
  timestamps :: "real list"
  metadata :: jsobject

record query_output = measurement +
  trackedTopology :: ITraversalTopology
  contributingDocuments :: "string list list"

text \<open>
  An \<^verbatim>\<open>Error\<close> object: its message and its \<^verbatim>\<open>partialOutput\<close> property when it has
  one. A \<^verbatim>\<open>TypeError\<close> is what the engine raises when a property of \<^verbatim>\<open>undefined\<close> is
  read.
\<close>

datatype js_error =
    Error string "measurement option"
  | TypeError string

fun partialOutput :: "js_error \<Rightarrow> measurement option" where
  "partialOutput (Error msg p) = p"
| "partialOutput (TypeError msg) = None"

text \<open>
  The external evaluator \<^verbatim>\<open>RunLinkTraversalPerformanceMetrics\<close> (package
  \<^verbatim>\<open>optimal-traversal-metric\<close>) is a parameter: two functions that return a score or
  reject. \<^verbatim>\<open>calculateMetricAll\<close> and \<^verbatim>\<open>calculateMetricFirstK\<close> hand it the five fields of
  the metric input, here the record itself, and the remaining arguments unchanged.
\<close>

record evaluator =
  runMetricAll :: "IMetricInput \<Rightarrow> js_error + real"
  runMetricFirstK ::
    "int \<Rightarrow> IMetricInput \<Rightarrow> searchType \<Rightarrow> string option \<Rightarrow> nat option \<Rightarrow> bool option
       \<Rightarrow> nat option \<Rightarrow> js_error + real"

text \<open>The calls made to the evaluator, in the order they are made.\<close>

datatype metric_call = CallAll | CallFirstK int

definition calculateMetricAllResults ::
  "evaluator \<Rightarrow> ITraversalTopology \<Rightarrow> string list list \<Rightarrow> topologyType \<Rightarrow> metric_call list
     \<Rightarrow> metric_call list \<times> (js_error + real)" where
  "calculateMetricAllResults ev topology docs metricType calls =
     (let metricInput = prepareMetricInput topology docs metricType
      in (calls @ [CallAll], runMetricAll ev metricInput))"

text \<open>
  The loop \<^verbatim>\<open>for (const k of kToCheck)\<close> of \<^verbatim>\<open>calculateMetricFirstKResults\<close>;
  \<open>metricsFirstK\<close> is the array built so far. A rejected evaluator call ends the loop.
\<close>

fun firstKLoop ::
  "evaluator \<Rightarrow> IMetricInput \<Rightarrow> searchType \<Rightarrow> string option \<Rightarrow> nat option \<Rightarrow> bool option
     \<Rightarrow> nat option \<Rightarrow> int list \<Rightarrow> real list \<Rightarrow> metric_call list
     \<Rightarrow> metric_call list \<times> (js_error + real list)" where
  "firstKLoop ev metricInput st file batchSize sampling samples [] metricsFirstK calls =
     (calls, Inr metricsFirstK)"
| "firstKLoop ev metricInput st file batchSize sampling samples (k # ks) metricsFirstK calls =
     (if int (length (contributingNodes metricInput)) > k
      then (case runMetricFirstK ev k metricInput st file batchSize sampling samples of
              Inl e \<Rightarrow> (calls @ [CallFirstK k], Inl e)
            | Inr v \<Rightarrow> firstKLoop ev metricInput st file batchSize sampling samples ks
                        (metricsFirstK @ [v]) (calls @ [CallFirstK k]))
      else firstKLoop ev metricInput st file batchSize sampling samples ks
             (metricsFirstK @ [- 1]) calls)"

definition calculateMetricFirstKResults ::
  "evaluator \<Rightarrow> int list \<Rightarrow> ITraversalTopology \<Rightarrow> string list list \<Rightarrow> topologyType
     \<Rightarrow> searchType \<Rightarrow> string option \<Rightarrow> nat option \<Rightarrow> bool option \<Rightarrow> nat option
     \<Rightarrow> metric_call list \<Rightarrow> metric_call list \<times> (js_error + real list)" where
  "calculateMetricFirstKResults ev kToCheck topology docs metricType st file batchSize
       sampling samples calls =
     (let metricInput = prepareMetricInput topology docs metricType
      in firstKLoop ev metricInput st file batchSize sampling samples kToCheck [] calls)"


section \<open>The benchmark runner\<close>

text \<open>
  The options of \<^verbatim>\<open>SparqlBenchmarkRunner\<close> that decide what is measured. \<open>querySets\<close>
  lists the query sets in the order \<^verbatim>\<open>for (const name in this.querySets)\<close> visits them.
  The logger, the probe query and the URL parameters are left out, and so are the calls of
  \<^verbatim>\<open>log\<close> and \<^verbatim>\<open>sleep\<close>. \<open>replication\<close> and \<open>warmup\<close> count iterations.
\<close>

record ISparqlBenchmarkRunnerArgs =
  endpoint :: string
  querySets :: "(string \<times> string list) list"
  replication :: nat
  warmup :: nat
  timestampsRecording :: bool
  timeout :: "real option"

text \<open>
  One entry of \<^verbatim>\<open>IBenchmarkResults\<close>, as \<^verbatim>\<open>executeQueries\<close> builds it:
  \<^verbatim>\<open>{ name, id, count, time, timestamps, error, metricsCalculated, metadata }\<close>.
\<close>

record IBenchmarkResult = measurement +
  name :: string
  id' :: string
  error :: bool
  metricsCalculated :: "real list"

type_synonym IBenchmarkResults = "string \<rightharpoonup> IBenchmarkResult"

text \<open>
  A row of the result stream: one that carries \<^verbatim>\<open>_trackedTopology\<close> (and with it
  \<^verbatim>\<open>_sourceAttribution\<close>), both already parsed, or one that does not.
\<close>

datatype row = PlainRow | TopologyRow ITraversalTopology "string list"

text \<open>
  What happens while one query runs, in the order the callbacks are called: the events of the
  result stream, a rejection of \<^verbatim>\<open>fetchBindings\<close> itself, and the timer of the overall
  timeout running out. Each comes with the value \<^verbatim>\<open>countTime(hrstart)\<close> has at that
  moment.
\<close>

datatype stream_event =
    OnMetadata jsobject
  | OnData row
  | OnError string
  | OnEnd
  | FetchRejected string
  | TimerElapsed

type_synonym script = "(real \<times> stream_event) list"

text \<open>
  The events that settle the promise of the result stream: the stream fails or ends, or
  \<^verbatim>\<open>fetchBindings\<close> rejects. \<open>isData\<close> holds for the arrival of a row.
\<close>

fun completes :: "stream_event \<Rightarrow> bool" where
  "completes (OnError msg) = True"
| "completes OnEnd = True"
| "completes (FetchRejected msg) = True"
| "completes ev = False"

fun isData :: "stream_event \<Rightarrow> bool" where
  "isData (OnData r) = True"
| "isData ev = False"

text \<open>
  The surroundings of the runner: the answers of successive \<^verbatim>\<open>isUp\<close> probes, what the
  endpoint does for the successive queries, the queries sent so far and the evaluator calls
  made so far.
\<close>

record world =
  isUpResults :: "nat \<Rightarrow> bool"
  isUpCalls :: nat
  responses :: "nat \<Rightarrow> script"
  sent :: "string list"
  metricCalls :: "metric_call list"

definition emptyTopology :: ITraversalTopology where
  "emptyTopology =
     \<lparr> nodeToIndex = Map.empty, edgeListUnWeighted = [], edgeListRequestTime = [],
       edgeListDocumentSize = [], edgesInGraph = Map.empty, metadataNode = [],
       traversalOrder = [], traversalOrderEdges = [] \<rparr>"

text \<open>
  The promise \<^verbatim>\<open>executeQuery\<close> returns, settled by the first callback that resolves or
  rejects it; \<open>None\<close> when no callback ever does. \<open>topo\<close>, \<open>docs\<close>, \<open>n\<close>, \<open>ts\<close> and
  \<open>md\<close> are the variables \<^verbatim>\<open>trackedTopology\<close>, \<^verbatim>\<open>contributingDocuments\<close>,
  \<^verbatim>\<open>count\<close>, \<^verbatim>\<open>timestamps\<close> and \<^verbatim>\<open>metadata\<close> of the source; \<open>armed\<close> says that the
  timeout timer exists.
\<close>

fun consumeStream ::
  "bool \<Rightarrow> bool \<Rightarrow> script \<Rightarrow> ITraversalTopology \<Rightarrow> string list list \<Rightarrow> nat \<Rightarrow> real list
     \<Rightarrow> jsobject \<Rightarrow> (js_error + query_output) option" where
  "consumeStream recording armed [] topo docs n ts md = None"
| "consumeStream recording armed ((t, OnMetadata readMetadata) # rest) topo docs n ts md =
     consumeStream recording armed rest topo docs n ts readMetadata"
| "consumeStream recording armed ((t, OnData PlainRow) # rest) topo docs n ts md =
     consumeStream recording armed rest topo docs (n + 1)
       (if recording then ts @ [t] else ts) md"
| "consumeStream recording armed ((t, OnData (TopologyRow topo' attribution)) # rest)
       topo docs n ts md =
     consumeStream recording armed rest topo' (docs @ [attribution]) (n + 1)
       (if recording then ts @ [t] else ts) md"
| "consumeStream recording armed ((t, OnError msg) # rest) topo docs n ts md =
     Some (Inl (Error msg
       (Some \<lparr> count = n, time = t, timestamps = ts, metadata = md \<rparr>)))"
| "consumeStream recording armed ((t, OnEnd) # rest) topo docs n ts md =
     Some (Inr \<lparr> count = n, time = t, timestamps = ts, metadata = md,
                 trackedTopology = topo, contributingDocuments = docs \<rparr>)"
| "consumeStream recording armed ((t, FetchRejected msg) # rest) topo docs n ts md =
     Some (Inl (Error msg None))"
| "consumeStream recording armed ((t, TimerElapsed) # rest) topo docs n ts md =
     (if armed then Some (Inl (Error ''Timeout for running query'' None))
      else consumeStream recording armed rest topo docs n ts md)"

definition executeQuery ::
  "ISparqlBenchmarkRunnerArgs \<Rightarrow> script \<Rightarrow> (js_error + query_output) option" where
  "executeQuery cfg events =
     consumeStream (timestampsRecording cfg) (js_truthy_number (timeout cfg)) events
       emptyTopology [] 0 [] []"

text \<open>
  \<^verbatim>\<open>waitUntilUp\<close>: probe until \<^verbatim>\<open>isUp\<close> answers \<^verbatim>\<open>true\<close>; \<open>None\<close> when it never does.
\<close>

partial_function (option) waitUntilUp :: "world \<Rightarrow> world option" where
  "waitUntilUp w =
     (if isUpResults w (isUpCalls w)
      then Some (w\<lparr>isUpCalls := Suc (isUpCalls w)\<rparr>)
      else waitUntilUp (w\<lparr>isUpCalls := Suc (isUpCalls w)\<rparr>))"

text \<open>
  The values of \<^verbatim>\<open>count\<close>, \<^verbatim>\<open>time\<close>, \<^verbatim>\<open>timestamps\<close>, \<^verbatim>\<open>metadata\<close>,
  \<^verbatim>\<open>trackedTopology\<close>, \<^verbatim>\<open>contributingDocuments\<close> and \<^verbatim>\<open>errorObject\<close> after the
  \<^verbatim>\<open>try\<close>/\<^verbatim>\<open>catch\<close> of \<^verbatim>\<open>executeQueries\<close>. Destructuring \<^verbatim>\<open>partialOutput\<close>, which has
  no topology and no contributing documents, leaves those two \<^verbatim>\<open>undefined\<close>.
\<close>

definition catchExecuteQuery ::
  "js_error + query_output
     \<Rightarrow> measurement \<times> ITraversalTopology option \<times> string list list option \<times> js_error option"
  where
  "catchExecuteQuery r =
     (case r of
        Inr out \<Rightarrow>
          (\<lparr> count = count out, time = time out, timestamps = timestamps out,
             metadata = metadata out \<rparr>,
           Some (trackedTopology out), Some (contributingDocuments out), None)
      | Inl errorObject \<Rightarrow>
          (case partialOutput errorObject of
             Some p \<Rightarrow> (p, None, None, Some errorObject)
           | None \<Rightarrow>
               (\<lparr> count = 0, time = 0, timestamps = [], metadata = [] \<rparr>,
                Some emptyTopology, Some [], Some errorObject)))"

text \<open>
  \<^verbatim>\<open>metricsCalculated\<close>: the all-results metric and the first-k metrics for
  \<^verbatim>\<open>[1,2,4]\<close>, or four times \<open>-1\<close>. Reading \<^verbatim>\<open>.length\<close> of an undefined
  \<^verbatim>\<open>contributingDocuments\<close>, or an edge list of an undefined topology, raises a
  \<^verbatim>\<open>TypeError\<close>.
\<close>

definition calculateMetrics ::
  "evaluator \<Rightarrow> nat \<Rightarrow> ITraversalTopology option \<Rightarrow> string list list option
     \<Rightarrow> metric_call list \<Rightarrow> metric_call list \<times> (js_error + real list)" where
  "calculateMetrics ev n topo docs calls =
     (if n > 0 then
        (case docs of
           None \<Rightarrow> (calls, Inl (TypeError ''Cannot read properties of undefined (reading length)''))
         | Some d \<Rightarrow>
             if length d > 0 then
               (case topo of
                  None \<Rightarrow>
                    (calls, Inl (TypeError
                       ''Cannot read properties of undefined (reading edgeListUnWeighted)''))
                | Some t \<Rightarrow>
                    (case calculateMetricAllResults ev t d unweighted calls of
                       (calls1, Inl e) \<Rightarrow> (calls1, Inl e)
                     | (calls1, Inr metricAll) \<Rightarrow>
                         (case calculateMetricFirstKResults ev [1, 2, 4] t d unweighted full
                                 None (Some 5000) (Some True) (Some 1000000) calls1 of
                            (calls2, Inl e) \<Rightarrow> (calls2, Inl e)
                          | (calls2, Inr metricsFirstK) \<Rightarrow>
                              (calls2, Inr (metricAll # metricsFirstK)))))
             else (calls, Inr [- 1, - 1, - 1, - 1]))
      else (calls, Inr [- 1, - 1, - 1, - 1]))"

text \<open>
  \<^verbatim>\<open>for (let i = 0; i < length; ++i) dataEntry.timestamps[i] += timestamps[i]\<close>.
\<close>

function combineTimestamps :: "nat \<Rightarrow> nat \<Rightarrow> real list \<Rightarrow> real list \<Rightarrow> real list" where
  "combineTimestamps i len entryTimestamps ts =
     (if i < len
      then combineTimestamps (i + 1) len
             (entryTimestamps[i := entryTimestamps ! i + ts ! i]) ts
      else entryTimestamps)"
  by pat_completeness auto
termination
  by (relation "measure (\<lambda>(i, len, entryTimestamps, ts). len - i)") auto

declare combineTimestamps.simps [simp del]

text \<open>
  The merge of a later measurement into the entry that exists for the key (the
  \<^verbatim>\<open>else\<close> branch of \<^verbatim>\<open>if (!data[name + id])\<close>).
\<close>

definition mergeEntry ::
  "IBenchmarkResult \<Rightarrow> js_error option \<Rightarrow> real \<Rightarrow> real list \<Rightarrow> IBenchmarkResult" where
  "mergeEntry dataEntry errorObject t ts =
     (let e1 = (if errorObject \<noteq> None then dataEntry\<lparr>error := True\<rparr> else dataEntry);
          e2 = e1\<lparr>time := time e1 + t\<rparr>;
          len = min (length (timestamps e2)) (length ts)
      in e2\<lparr>timestamps := combineTimestamps 0 len (timestamps e2) ts\<rparr>)"

text \<open>
  Lines 134 to 150 of the runner: create the entry for \<^verbatim>\<open>name + id\<close> or merge into
  it. \<open>qname\<close> and \<open>qid\<close> are \<^verbatim>\<open>name\<close> and \<^verbatim>\<open>id\<close>. The key ends with the
  digits of \<^verbatim>\<open>id\<close>, so \<^verbatim>\<open>data[name + id]\<close> never reads a property that
  \<^verbatim>\<open>data\<close> inherits.
\<close>

definition storeResult ::
  "IBenchmarkResults \<Rightarrow> string \<Rightarrow> string \<Rightarrow> measurement \<Rightarrow> js_error option \<Rightarrow> real list
     \<Rightarrow> IBenchmarkResults" where
  "storeResult data qname qid m errorObject metrics =
     (case data (qname @ qid) of
        None \<Rightarrow>
          data(qname @ qid \<mapsto>
            \<lparr> count = count m, time = time m, timestamps = timestamps m, metadata = metadata m,
              name = qname, id' = qid, error = (errorObject \<noteq> None),
              metricsCalculated = metrics \<rparr>)
      | Some dataEntry \<Rightarrow>
          data(qname @ qid \<mapsto> mergeEntry dataEntry errorObject (time m) (timestamps m)))"


text \<open>
  Sending a query: the endpoint's behaviour for it is the next script of the world.
\<close>

definition dispatch :: "world \<Rightarrow> string \<Rightarrow> world \<times> script" where
  "dispatch w query = (w\<lparr>sent := sent w @ [query]\<rparr>, responses w (length (sent w)))"

text \<open>
  The body of the innermost loop of \<^verbatim>\<open>executeQueries\<close> up to the update of
  \<^verbatim>\<open>data\<close> (lines 80 to 150): the world and the data afterwards, with
  \<^verbatim>\<open>errorObject\<close>. \<open>None\<close>: the query never settles. \<open>Inl\<close>: an exception leaves
  \<^verbatim>\<open>executeQueries\<close>.
\<close>

definition measureQuery ::
  "ISparqlBenchmarkRunnerArgs \<Rightarrow> evaluator \<Rightarrow> string \<Rightarrow> string \<Rightarrow> string
     \<Rightarrow> world \<times> IBenchmarkResults
     \<Rightarrow> (js_error + world \<times> IBenchmarkResults \<times> js_error option) option" where
  "measureQuery cfg ev qname qid query s =
     (case s of (w, data) \<Rightarrow>
        (case dispatch w query of (w1, events) \<Rightarrow>
           (case executeQuery cfg events of
              None \<Rightarrow> None
            | Some r \<Rightarrow>
                (case catchExecuteQuery r of (m, topo, docs, errorObject) \<Rightarrow>
                   (case calculateMetrics ev (count m) topo docs (metricCalls w1) of
                      (calls, Inl e) \<Rightarrow> Some (Inl e)
                    | (calls, Inr metrics) \<Rightarrow>
                        Some (Inr (w1\<lparr>metricCalls := calls\<rparr>,
                                   storeResult data qname qid m errorObject metrics,
                                   errorObject)))))))"

text \<open>
  The whole body: after an error the runner waits until the endpoint is up again (lines 152
  to 160).
\<close>

definition executeOne ::
  "ISparqlBenchmarkRunnerArgs \<Rightarrow> evaluator \<Rightarrow> string \<Rightarrow> string \<Rightarrow> string
     \<Rightarrow> world \<times> IBenchmarkResults \<Rightarrow> (js_error + world \<times> IBenchmarkResults) option" where
  "executeOne cfg ev qname qid query s =
     (case measureQuery cfg ev qname qid query s of
        None \<Rightarrow> None
      | Some (Inl e) \<Rightarrow> Some (Inl e)
      | Some (Inr (w, data, errorObject)) \<Rightarrow>
          (if errorObject \<noteq> None
           then (case waitUntilUp w of None \<Rightarrow> None | Some w' \<Rightarrow> Some (Inr (w', data)))
           else Some (Inr (w, data))))"

text \<open>\<^verbatim>\<open>for (const id in test)\<close>: \<open>i\<close> is the index of the first query of the list.\<close>

fun executeQuerySet ::
  "ISparqlBenchmarkRunnerArgs \<Rightarrow> evaluator \<Rightarrow> string \<Rightarrow> nat \<Rightarrow> string list
     \<Rightarrow> world \<times> IBenchmarkResults \<Rightarrow> (js_error + world \<times> IBenchmarkResults) option" where
  "executeQuerySet cfg ev qname i [] s = Some (Inr s)"
| "executeQuerySet cfg ev qname i (query # test) s =
     (case executeOne cfg ev qname (string_of_nat i) query s of
        None \<Rightarrow> None
      | Some (Inl e) \<Rightarrow> Some (Inl e)
      | Some (Inr s') \<Rightarrow> executeQuerySet cfg ev qname (i + 1) test s')"

text \<open>\<^verbatim>\<open>for (const name in this.querySets)\<close>.\<close>

fun executeQuerySets ::
  "ISparqlBenchmarkRunnerArgs \<Rightarrow> evaluator \<Rightarrow> (string \<times> string list) list
     \<Rightarrow> world \<times> IBenchmarkResults \<Rightarrow> (js_error + world \<times> IBenchmarkResults) option" where
  "executeQuerySets cfg ev [] s = Some (Inr s)"
| "executeQuerySets cfg ev ((qname, test) # sets) s =
     (case executeQuerySet cfg ev qname 0 test s of
        None \<Rightarrow> None
      | Some (Inl e) \<Rightarrow> Some (Inl e)
      | Some (Inr s') \<Rightarrow> executeQuerySets cfg ev sets s')"

text \<open>
  \<^verbatim>\<open>executeQueries(data, iterations)\<close>: the outer loop, by the number of iterations that
  remain.
\<close>

fun executeQueries ::
  "ISparqlBenchmarkRunnerArgs \<Rightarrow> evaluator \<Rightarrow> world \<times> IBenchmarkResults \<Rightarrow> nat
     \<Rightarrow> (js_error + world \<times> IBenchmarkResults) option" where
  "executeQueries cfg ev s 0 = Some (Inr s)"
| "executeQueries cfg ev s (Suc iterations) =
     (case executeQuerySets cfg ev (querySets cfg) s of
        None \<Rightarrow> None
      | Some (Inl e) \<Rightarrow> Some (Inl e)
      | Some (Inr s') \<Rightarrow> executeQueries cfg ev s' iterations)"

text \<open>
  The averaging loop of \<^verbatim>\<open>run\<close>:
  \<^verbatim>\<open>results[key].time = Math.floor(results[key].time / this.replication)\<close> and the same
  for every timestamp.
\<close>

definition averageResults :: "nat \<Rightarrow> IBenchmarkResults \<Rightarrow> IBenchmarkResults" where
  "averageResults repl results =
     (\<lambda>key. case results key of
               None \<Rightarrow> None
             | Some r \<Rightarrow>
                 Some (r\<lparr> time := of_int \<lfloor>time r / real repl\<rfloor>,
                          timestamps := map (\<lambda>t. of_int \<lfloor>t / real repl\<rfloor>) (timestamps r) \<rparr>))"

text \<open>
  \<^verbatim>\<open>IRunOptions\<close>: the two hooks act on the surroundings only, and may reject or never
  return.
\<close>

record IRunOptions =
  onStart :: "(world \<Rightarrow> (js_error + world) option) option"
  onStop :: "(world \<Rightarrow> (js_error + world) option) option"

definition callHook ::
  "(world \<Rightarrow> (js_error + world) option) option \<Rightarrow> world \<Rightarrow> (js_error + world) option" where
  "callHook hook w = (case hook of None \<Rightarrow> Some (Inr w) | Some h \<Rightarrow> h w)"

definition run ::
  "ISparqlBenchmarkRunnerArgs \<Rightarrow> evaluator \<Rightarrow> IRunOptions \<Rightarrow> world
     \<Rightarrow> (js_error + world \<times> IBenchmarkResults) option" where
  "run cfg ev options w =
     (case waitUntilUp w of
        None \<Rightarrow> None
      | Some w1 \<Rightarrow>
          (case executeQueries cfg ev (w1, Map.empty) (warmup cfg) of
             None \<Rightarrow> None
           | Some (Inl e) \<Rightarrow> Some (Inl e)
           | Some (Inr (w2, warmupData)) \<Rightarrow>
               (case callHook (onStart options) w2 of
                  None \<Rightarrow> None
                | Some (Inl e) \<Rightarrow> Some (Inl e)
                | Some (Inr w3) \<Rightarrow>
                    (case executeQueries cfg ev (w3, Map.empty) (replication cfg) of
                       None \<Rightarrow> None
                     | Some (Inl e) \<Rightarrow> Some (Inl e)
                     | Some (Inr (w4, results)) \<Rightarrow>
                         (case callHook (onStop options) w4 of
                            None \<Rightarrow> None
                          | Some (Inl e) \<Rightarrow> Some (Inl e)
                          | Some (Inr w5) \<Rightarrow>
                              Some (Inr (w5, averageResults (replication cfg) results)))))))"


section \<open>Objects used as dictionaries\<close>

text \<open>
  A \<^verbatim>\<open>Record<string, T>\<close> whose key order matters is the list of its own entries in
  the order \<^verbatim>\<open>for ... in\<close> and \<^verbatim>\<open>Object.entries\<close> visit them, with distinct keys:
  \<open>map_of\<close> reads an own property, \<open>record_set\<close> writes one (in place when the key
  exists, at the end otherwise).

  The dictionaries of the aggregator and of the metadata loader start as the literal
  \<^verbatim>\<open>{}\<close>, whose prototype is \<^verbatim>\<open>Object.prototype\<close>. The operator \<^verbatim>\<open>in\<close> and a
  property read also find the properties inherited from it, listed in
  \<open>objectPrototypeKeys\<close>; each of them is a function or, for \<^verbatim>\<open>__proto__\<close>, the
  prototype object, and none has a method \<^verbatim>\<open>push\<close>. Such a key is never an own key of
  a dictionary that the code only writes after \<^verbatim>\<open>in\<close> (or \<^verbatim>\<open>??=\<close>) found nothing.
\<close>

definition objectPrototypeKeys :: "string list" where
  "objectPrototypeKeys =
     [''constructor'', ''__defineGetter__'', ''__defineSetter__'', ''hasOwnProperty'',
      ''__lookupGetter__'', ''__lookupSetter__'', ''isPrototypeOf'', ''propertyIsEnumerable'',
      ''toString'', ''valueOf'', ''__proto__'', ''toLocaleString'']"

text \<open>\<^verbatim>\<open>k in r\<close> for a dictionary \<open>r\<close> that started as \<^verbatim>\<open>{}\<close>.\<close>

definition js_in :: "string \<Rightarrow> (string \<times> 'a) list \<Rightarrow> bool" where
  "js_in k r = (k \<in> set objectPrototypeKeys \<or> map_of r k \<noteq> None)"

fun record_set :: "(string \<times> 'a) list \<Rightarrow> string \<Rightarrow> 'a \<Rightarrow> (string \<times> 'a) list" where
  "record_set [] k v = [(k, v)]"
| "record_set ((k', v') # r) k v =
     (if k' = k then (k, v) # r else (k', v') # record_set r k v)"


section \<open>The result aggregator for query sequences\<close>

text \<open>
  The properties of \<^verbatim>\<open>IResult\<close> that \<^verbatim>\<open>ResultAggregatorComunicaQuerySequence\<close> reads
  and writes. \<open>error\<close> is the truthiness of the property \<^verbatim>\<open>error\<close>; \<open>httpRequests\<close> is
  the number the property holds, or \<open>None\<close> when the result has no such property
  (\<^verbatim>\<open>undefined\<close>, whose \<^verbatim>\<open>typeof\<close> is not \<^verbatim>\<open>'number'\<close>). The results of a list are
  distinct objects.
\<close>

record ISequenceElement =
  template :: string

record IResult =
  name :: string
  template :: string
  sequence :: "string option"
  sequenceElement :: ISequenceElement
  httpRequests :: "real option"
  error :: bool

text \<open>
  The loop of \<^verbatim>\<open>groupResults\<close>; \<open>templates\<close> is the dictionary built so far. When
  \<^verbatim>\<open>template in templates\<close> holds for an inherited property, no group is created and
  \<^verbatim>\<open>templates[template]\<close> is the inherited value: calling its \<^verbatim>\<open>push\<close> raises a
  \<^verbatim>\<open>TypeError\<close>.
\<close>

fun groupResultsLoop ::
  "IResult list \<Rightarrow> (string \<times> IResult list) list
     \<Rightarrow> js_error + (string \<times> IResult list) list" where
  "groupResultsLoop [] templates = Inr templates"
| "groupResultsLoop (result # rest) templates =
     (let tpl = template result;
          result' = result\<lparr>sequence := Some (name result)\<rparr>\<lparr>name := tpl\<rparr>;
          templates1 = (if \<not> js_in tpl templates then record_set templates tpl []
                        else templates)
      in case map_of templates1 tpl of
           None \<Rightarrow> Inl (TypeError ''templates[template].push is not a function'')
         | Some members \<Rightarrow>
             groupResultsLoop rest (record_set templates1 tpl (members @ [result'])))"

definition groupResults :: "IResult list \<Rightarrow> js_error + (string \<times> IResult list) list" where
  "groupResults results = groupResultsLoop results []"

text \<open>
  The numbers \<^verbatim>\<open><number>result.httpRequests\<close> of the results that pass
  \<^verbatim>\<open>filter(res => !res.error && typeof res.httpRequests === 'number')\<close>.
\<close>

fun successfulRequests :: "IResult list \<Rightarrow> real list" where
  "successfulRequests [] = []"
| "successfulRequests (res # rest) =
     (case (error res, httpRequests res) of
        (False, Some resultHttpRequests) \<Rightarrow> resultHttpRequests # successfulRequests rest
      | _ \<Rightarrow> successfulRequests rest)"

text \<open>
  The first loop over a group: \<^verbatim>\<open>requestsSum\<close>, \<^verbatim>\<open>requestsMax\<close>, \<^verbatim>\<open>requestsMin\<close> and
  \<^verbatim>\<open>successfulExecutions\<close>.
\<close>

fun requestsLoop :: "real list \<Rightarrow> real \<times> real \<times> real \<times> nat \<Rightarrow> real \<times> real \<times> real \<times> nat" where
  "requestsLoop [] acc = acc"
| "requestsLoop (resultHttpRequests # rest) (requestsSum, requestsMax, requestsMin, successfulExecutions) =
     requestsLoop rest
       (if successfulExecutions > 0 then requestsSum + resultHttpRequests else resultHttpRequests,
        if successfulExecutions > 0 then max requestsMax resultHttpRequests else resultHttpRequests,
        if successfulExecutions > 0 then min requestsMin resultHttpRequests else resultHttpRequests,
        successfulExecutions + 1)"

text \<open>
  The properties of \<^verbatim>\<open>IAggregateResult\<close> that the sequence aggregator writes; \<open>None\<close>
  is a property that has not been set.
\<close>

record IAggregateResult =
  name :: string
  httpRequests :: "jsnum option"
  httpRequestsMax :: "jsnum option"
  httpRequestsMin :: "jsnum option"
  httpRequestsStd :: "jsnum option"

text \<open>Reading a numeric property that may be unset.\<close>

fun js_property :: "jsnum option \<Rightarrow> jsnum" where
  "js_property None = NaN"
| "js_property (Some v) = v"

text \<open>
  The second loop over a group, \<^verbatim>\<open>for (const { httpRequests, error } of resultGroup)\<close>,
  which adds into \<^verbatim>\<open>httpRequestsStd\<close> of the group's aggregate. Its only test is
  \<^verbatim>\<open>!error\<close>.
\<close>

fun deviationLoop :: "IResult list \<Rightarrow> IAggregateResult \<Rightarrow> IAggregateResult" where
  "deviationLoop [] aggregate = aggregate"
| "deviationLoop (res # rest) aggregate =
     deviationLoop rest
       (if \<not> IResult.error res
        then aggregate\<lparr>httpRequestsStd :=
               Some (js_add (js_property (httpRequestsStd aggregate))
                       (js_square (js_sub (js_to_number (IResult.httpRequests res))
                                          (js_property (httpRequests aggregate)))))\<rparr>
        else aggregate)"

text \<open>
  The body of the loop over \<^verbatim>\<open>Object.entries(groupedResults)\<close> of
  \<^verbatim>\<open>aggregateResults\<close> for one group, on the object \<^verbatim>\<open>groupedAggregates[key][0]\<close>.
\<close>

definition aggregateGroup :: "IResult list \<Rightarrow> IAggregateResult \<Rightarrow> IAggregateResult" where
  "aggregateGroup resultGroup aggregate =
     (case requestsLoop (successfulRequests resultGroup) (0, 0, 0, 0) of
        (requestsSum, requestsMax, requestsMin, successfulExecutions) \<Rightarrow>
          if successfulExecutions > 0 then
            (let a1 = aggregate\<lparr> httpRequests := Some (Num (requestsSum / real successfulExecutions)),
                                 httpRequestsMax := Some (Num requestsMax),
                                 httpRequestsMin := Some (Num requestsMin),
                                 httpRequestsStd := Some (Num 0) \<rparr>;
                 a2 = deviationLoop resultGroup a1
             in a2\<lparr>httpRequestsStd :=
                    Some (js_sqrt (js_div_count (js_property (httpRequestsStd a2))
                                     successfulExecutions))\<rparr>)
          else aggregate)"

text \<open>
  \<^verbatim>\<open>groupAggregateResults\<close>, applied to the aggregates. The objects of its groups are
  the objects of the list it is given, so a group holds positions in that list; \<open>i\<close> is the
  position of the first aggregate of the list.
\<close>

fun groupAggregateLoop ::
  "nat \<Rightarrow> IAggregateResult list \<Rightarrow> (string \<times> nat list) list
     \<Rightarrow> js_error + (string \<times> nat list) list" where
  "groupAggregateLoop i [] groups = Inr groups"
| "groupAggregateLoop i (result # rest) groups =
     (if js_in (name result) groups then
        (case map_of groups (name result) of
           None \<Rightarrow> Inl (TypeError ''groups[key].push is not a function'')
         | Some members \<Rightarrow>
             groupAggregateLoop (i + 1) rest (record_set groups (name result) (members @ [i])))
      else groupAggregateLoop (i + 1) rest (record_set groups (name result) [i]))"

definition groupAggregateResults ::
  "IAggregateResult list \<Rightarrow> js_error + (string \<times> nat list) list" where
  "groupAggregateResults results = groupAggregateLoop 0 results []"

text \<open>
  The loop over \<^verbatim>\<open>Object.entries(groupedResults)\<close>. When the group has a successful
  execution and \<^verbatim>\<open>groupedAggregates[key]\<close> is undefined, writing its first element raises
  a \<^verbatim>\<open>TypeError\<close>.
\<close>

fun aggregateLoop ::
  "(string \<times> IResult list) list \<Rightarrow> (string \<times> nat list) list \<Rightarrow> IAggregateResult list
     \<Rightarrow> js_error + IAggregateResult list" where
  "aggregateLoop [] groupedAggregates aggregates = Inr aggregates"
| "aggregateLoop ((key, resultGroup) # rest) groupedAggregates aggregates =
     (case requestsLoop (successfulRequests resultGroup) (0, 0, 0, 0) of
        (requestsSum, requestsMax, requestsMin, successfulExecutions) \<Rightarrow>
          if successfulExecutions > 0 then
            (case map_of groupedAggregates key of
               Some (i # others) \<Rightarrow>
                 (if i < length aggregates
                  then aggregateLoop rest groupedAggregates
                         (aggregates[i := aggregateGroup resultGroup (aggregates ! i)])
                  else Inl (TypeError ''Cannot set properties of undefined''))
             | _ \<Rightarrow> Inl (TypeError ''Cannot read properties of undefined (reading 0)''))
          else aggregateLoop rest groupedAggregates aggregates)"

text \<open>
  \<^verbatim>\<open>aggregateResults\<close>. \<^verbatim>\<open>aggregateGroupedResults\<close> belongs to the base class
  \<^verbatim>\<open>ResultAggregatorComunica\<close> and is a parameter.
\<close>

definition aggregateResults ::
  "((string \<times> IResult list) list \<Rightarrow> IAggregateResult list) \<Rightarrow> IResult list
     \<Rightarrow> js_error + IAggregateResult list" where
  "aggregateResults aggregateGroupedResults results =
     (let results1 = map (\<lambda>result. result\<lparr>IResult.template :=
                             ISequenceElement.template (sequenceElement result)\<rparr>) results
      in case groupResults results1 of
           Inl e \<Rightarrow> Inl e
         | Inr groupedResults \<Rightarrow>
             (let aggregates = aggregateGroupedResults groupedResults
              in case groupAggregateResults aggregates of
                   Inl e \<Rightarrow> Inl e
                 | Inr groupedAggregates \<Rightarrow>
                     aggregateLoop groupedResults groupedAggregates aggregates))"


section \<open>Loading query metadata from files\<close>













section \<open>The statistics in the words of the specification\<close>

text \<open>
  The specification takes the statistics of a group over its members without an error
  flag, leaving out a result whose \<^verbatim>\<open>httpRequests\<close> is not a number: \<open>specRequests\<close>
  is the list of the numbers it takes them over. Its standard deviation is the population
  standard deviation, which divides the sum of the squared deviations from the mean by the
  number of values.
\<close>

definition specRequests :: "IResult list \<Rightarrow> real list" where
  "specRequests resultGroup =
     map (\<lambda>res. the (IResult.httpRequests res))
         (filter (\<lambda>res. \<not> IResult.error res \<and> IResult.httpRequests res \<noteq> None) resultGroup)"

definition populationMean :: "real list \<Rightarrow> real" where
  "populationMean xs = sum_list xs / real (length xs)"

definition populationStd :: "real list \<Rightarrow> real" where
  "populationStd xs =
     sqrt ((\<Sum>x\<leftarrow>xs. (x - populationMean xs) * (x - populationMean xs)) / real (length xs))"


section \<open>Example inputs\<close>

definition exampleEvaluator :: evaluator where
  "exampleEvaluator =
     \<lparr> runMetricAll = (\<lambda>metricInput. Inr 0),
       runMetricFirstK = (\<lambda>k metricInput st file batchSize sampling samples. Inr (of_int k / 10)) \<rparr>"

definition exampleArgs :: "string list \<Rightarrow> nat \<Rightarrow> real option \<Rightarrow> ISparqlBenchmarkRunnerArgs" where
  "exampleArgs queries repl tmo =
     \<lparr> endpoint = ''http://localhost:3001/sparql'', querySets = [(''q'', queries)],
       replication = repl, warmup = 0, timestampsRecording = True, timeout = tmo \<rparr>"

definition exampleWorld :: "script list \<Rightarrow> world" where
  "exampleWorld scripts =
     \<lparr> isUpResults = (\<lambda>n. True), isUpCalls = 0,
       responses = (\<lambda>n. case js_index scripts n of None \<Rightarrow> [] | Some events \<Rightarrow> events),
       sent = [], metricCalls = [] \<rparr>"

definition noHooks :: IRunOptions where
  "noHooks = \<lparr> onStart = None, onStop = None \<rparr>"

definition fiveRows :: script where
  "fiveRows = [(10, OnData PlainRow), (20, OnData PlainRow), (30, OnData PlainRow),
               (40, OnData PlainRow), (50, OnData PlainRow)]"

definition exampleResult :: "string \<Rightarrow> string \<Rightarrow> real option \<Rightarrow> bool \<Rightarrow> IResult" where
  "exampleResult qname tpl requests failed =
     \<lparr> IResult.name = qname, template = tpl, sequence = None,
       sequenceElement = \<lparr> ISequenceElement.template = tpl \<rparr>,
       IResult.httpRequests = requests, error = failed \<rparr>"

definition emptyAggregate :: "string \<Rightarrow> IAggregateResult" where
  "emptyAggregate key =
     \<lparr> name = key, httpRequests = None, httpRequestsMax = None, httpRequestsMin = None,
       httpRequestsStd = None \<rparr>"

definition exampleAggregateGroupedResults ::
  "(string \<times> IResult list) list \<Rightarrow> IAggregateResult list" where
  "exampleAggregateGroupedResults groupedResults =
     map (\<lambda>(key, members). emptyAggregate key) groupedResults"

text \<open>
  A group of three results without an error of which the last has no \<^verbatim>\<open>httpRequests\<close>,
  and a group with one failed result.
\<close>

definition groupWithoutNumber :: "IResult list" where
  "groupWithoutNumber =
     [exampleResult ''q0'' ''T1'' (Some 10) False, exampleResult ''q1'' ''T1'' (Some 20) False,
      exampleResult ''q2'' ''T1'' None False]"

definition groupWithError :: "IResult list" where
  "groupWithError =
     [exampleResult ''q0'' ''T1'' (Some 2) False, exampleResult ''q1'' ''T1'' (Some 4) False,
      exampleResult ''q2'' ''T1'' (Some 4) False, exampleResult ''q3'' ''T1'' (Some 4) False,
      exampleResult ''q4'' ''T1'' (Some 100) True, exampleResult ''q5'' ''T1'' (Some 5) False,
      exampleResult ''q6'' ''T1'' (Some 5) False, exampleResult ''q7'' ''T1'' (Some 7) False,
      exampleResult ''q8'' ''T1'' (Some 9) False]"




text \<open>A record that an earlier iteration has written under the key \<open>q0\<close>.\<close>

definition earlierRecord :: IBenchmarkResult where
  "earlierRecord =
     \<lparr> count = 3, time = 100, timestamps = [10, 20, 30], metadata = [],
       IBenchmarkResult.name = ''q'', id' = ''0'', IBenchmarkResult.error = False,
       metricsCalculated = [- 1, - 1, - 1, - 1] \<rparr>"

definition timeoutScript :: script where
  "timeoutScript = fiveRows @ [(1000, TimerElapsed), (1200, OnEnd)]"

definition threeRowsScript :: script where
  "threeRowsScript =
     [(10, OnData PlainRow), (20, OnData PlainRow), (30, OnData PlainRow), (100, OnEnd)]"


section \<open>Properties of the metric input preparation\<close>

lemma convert_weighted_edge:
  "w \<noteq> 0 \<Longrightarrow>
   convertZeroIndexedToOneIndexed [[s, t, w]] = [[Num (s + 1), Num (t + 1), Num w]]"
  by (simp add: convertZeroIndexedToOneIndexed_def js_index_def)

lemma convert_unweighted_edge:
  "convertZeroIndexedToOneIndexed [[s, t]] = [[Num (s + 1), Num (t + 1), Num 1]]"
  by (simp add: convertZeroIndexedToOneIndexed_def js_index_def)

text \<open>
  C2. The claim lets the weight \<open>0\<close> pass through the conversion unchanged. At the edge
  \<open>(s, t, 0)\<close> the conversion returns the weight \<open>1\<close>: the test \<^verbatim>\<open>x[2] ? x[2] : 1\<close>
  treats \<open>0\<close> like an omitted weight.
\<close>

theorem convert_weight_zero_replaced:
  "convertZeroIndexedToOneIndexed [[s, t, 0]] = [[Num (s + 1), Num (t + 1), Num 1]]"
  by (simp add: convertZeroIndexedToOneIndexed_def js_index_def)

lemma length_contributingNodes:
  "length (contributingNodes (prepareMetricInput topology docs metricType)) = length docs"
  by (simp add: prepareMetricInput_def Let_def)

lemma firstKLoop_calls:
  "\<exists>ks. fst (firstKLoop ev mi st fl bs sa sm kToCheck acc calls) = calls @ map CallFirstK ks
        \<and> set ks \<subseteq> {k \<in> set kToCheck. int (length (contributingNodes mi)) > k}"
proof (induction kToCheck arbitrary: acc calls)
  case Nil
  then show ?case by simp
next
  case (Cons k ks)
  show ?case
  proof (cases "int (length (contributingNodes mi)) > k")
    case False
    with Cons.IH [of "acc @ [- 1]" calls] show ?thesis by auto
  next
    case True
    show ?thesis
    proof (cases "runMetricFirstK ev k mi st fl bs sa sm")
      case (Inl e)
      with True have "fst (firstKLoop ev mi st fl bs sa sm (k # ks) acc calls)
                        = calls @ map CallFirstK [k]"
        by simp
      moreover have "set [k] \<subseteq> {k' \<in> set (k # ks). int (length (contributingNodes mi)) > k'}"
        using True by simp
      ultimately show ?thesis by blast
    next
      case (Inr v)
      from Cons.IH [of "acc @ [v]" "calls @ [CallFirstK k]"]
      obtain ks' where h:
        "fst (firstKLoop ev mi st fl bs sa sm ks (acc @ [v]) (calls @ [CallFirstK k]))
           = (calls @ [CallFirstK k]) @ map CallFirstK ks'"
        "set ks' \<subseteq> {k \<in> set ks. int (length (contributingNodes mi)) > k}" by blast
      have "fst (firstKLoop ev mi st fl bs sa sm (k # ks) acc calls)
              = calls @ map CallFirstK (k # ks')"
        using True Inr h(1) by simp
      moreover have "set (k # ks') \<subseteq> {k' \<in> set (k # ks). int (length (contributingNodes mi)) > k'}"
        using True h(2) by auto
      ultimately show ?thesis by blast
    qed
  qed
qed

lemma firstKLoop_result:
  "(\<forall>k \<in> set kToCheck. int (length (contributingNodes mi)) > k \<longrightarrow>
        runMetricFirstK ev k mi st fl bs sa sm = Inr (score k)) \<Longrightarrow>
   firstKLoop ev mi st fl bs sa sm kToCheck acc calls =
     (calls @ map CallFirstK (filter (\<lambda>k. int (length (contributingNodes mi)) > k) kToCheck),
      Inr (acc @ map (\<lambda>k. if int (length (contributingNodes mi)) > k then score k else - 1)
                     kToCheck))"
  by (induction kToCheck arbitrary: acc calls) auto

text \<open>
  C3. \<^verbatim>\<open>calculateMetricFirstKResults\<close> calls the first-k evaluator only for values \<open>k\<close>
  of the list that the number of contributing-node groups strictly exceeds. When the
  evaluator answers those calls with \<open>score k\<close>, the calls made are exactly those, in order,
  and the slot of every other \<open>k\<close> is \<open>-1\<close>. With \<open>[1, 2, 4]\<close> and three groups the
  evaluator is called for 1 and 2 and the result is its two scores followed by \<open>-1\<close>.
\<close>

theorem firstK_guard:
  "(\<exists>ks. fst (calculateMetricFirstKResults ev kToCheck topology docs metricType st fl bs sa
               sm calls) = calls @ map CallFirstK ks
        \<and> set ks \<subseteq> {k \<in> set kToCheck. int (length docs) > k})
   \<and> ((\<forall>k \<in> set kToCheck. int (length docs) > k \<longrightarrow>
          runMetricFirstK ev k (prepareMetricInput topology docs metricType) st fl bs sa sm
            = Inr (score k)) \<longrightarrow>
       calculateMetricFirstKResults ev kToCheck topology docs metricType st fl bs sa sm calls =
         (calls @ map CallFirstK (filter (\<lambda>k. int (length docs) > k) kToCheck),
          Inr (map (\<lambda>k. if int (length docs) > k then score k else - 1) kToCheck)))
   \<and> (length docs = 3
        \<and> runMetricFirstK ev 1 (prepareMetricInput topology docs metricType) st fl bs sa sm
            = Inr a
        \<and> runMetricFirstK ev 2 (prepareMetricInput topology docs metricType) st fl bs sa sm
            = Inr b \<longrightarrow>
       calculateMetricFirstKResults ev [1, 2, 4] topology docs metricType st fl bs sa sm calls =
         (calls @ [CallFirstK 1, CallFirstK 2], Inr [a, b, - 1]))"
proof (intro conjI impI)
  show "\<exists>ks. fst (calculateMetricFirstKResults ev kToCheck topology docs metricType st fl bs sa
               sm calls) = calls @ map CallFirstK ks
        \<and> set ks \<subseteq> {k \<in> set kToCheck. int (length docs) > k}"
    using firstKLoop_calls [of ev "prepareMetricInput topology docs metricType" st fl bs sa sm
        kToCheck "[]" calls]
    by (simp add: calculateMetricFirstKResults_def Let_def length_contributingNodes)
next
  assume "\<forall>k \<in> set kToCheck. int (length docs) > k \<longrightarrow>
            runMetricFirstK ev k (prepareMetricInput topology docs metricType) st fl bs sa sm
              = Inr (score k)"
  then show "calculateMetricFirstKResults ev kToCheck topology docs metricType st fl bs sa sm
               calls =
         (calls @ map CallFirstK (filter (\<lambda>k. int (length docs) > k) kToCheck),
          Inr (map (\<lambda>k. if int (length docs) > k then score k else - 1) kToCheck))"
    using firstKLoop_result [of kToCheck "prepareMetricInput topology docs metricType" ev st fl
        bs sa sm score "[]" calls]
    by (simp add: calculateMetricFirstKResults_def Let_def length_contributingNodes)
next
  assume "length docs = 3
        \<and> runMetricFirstK ev 1 (prepareMetricInput topology docs metricType) st fl bs sa sm
            = Inr a
        \<and> runMetricFirstK ev 2 (prepareMetricInput topology docs metricType) st fl bs sa sm
            = Inr b"
  then show "calculateMetricFirstKResults ev [1, 2, 4] topology docs metricType st fl bs sa sm
               calls = (calls @ [CallFirstK 1, CallFirstK 2], Inr [a, b, - 1])"
    by (simp add: calculateMetricFirstKResults_def Let_def length_contributingNodes)
qed

theorem firstK_guard_witness:
  "calculateMetricFirstKResults exampleEvaluator [1, 2, 4] emptyTopology
       [[''a''], [''b''], [''c'']] unweighted full None (Some 5000) (Some True) (Some 1000000) []
     = ([CallFirstK 1, CallFirstK 2], Inr [1 / 10, 2 / 10, - 1])"
  using firstK_guard [of exampleEvaluator "[1, 2, 4]" emptyTopology "[[''a''], [''b''], [''c'']]"
      unweighted full None "Some 5000" "Some True" "Some 1000000" "[]" "\<lambda>k. of_int k / 10"]
  by (simp add: exampleEvaluator_def)


section \<open>Properties of the benchmark runner\<close>

lemma waitUntilUp_up:
  "isUpResults w (isUpCalls w) \<Longrightarrow> waitUntilUp w = Some (w\<lparr>isUpCalls := Suc (isUpCalls w)\<rparr>)"
  by (subst waitUntilUp.simps) simp

lemma string_of_nat_0: "string_of_nat 0 = ''0''"
  by (simp add: string_of_nat.simps)

lemma string_of_nat_1: "string_of_nat (Suc 0) = ''1''"
  by (simp add: string_of_nat.simps)

lemma consumeStream_timer:
  "\<forall>e \<in> set before. \<not> completes (snd e) \<Longrightarrow>
   consumeStream recording True (before @ (t, TimerElapsed) # rest) topo docs n ts md =
     Some (Inl (Error ''Timeout for running query'' None))"
proof (induction before arbitrary: topo docs n ts md)
  case Nil
  then show ?case by simp
next
  case (Cons e before)
  obtain t' ev where e: "e = (t', ev)" by (cases e)
  from Cons.prems have rest: "\<forall>e \<in> set before. \<not> completes (snd e)" and ev: "\<not> completes ev"
    by (simp_all add: e)
  show ?case
  proof (cases ev)
    case (OnData r)
    then show ?thesis using Cons.IH [OF rest] e by (cases r) simp_all
  qed (use ev e Cons.IH [OF rest] in simp_all)
qed

lemma consumeStream_rows_error:
  "\<forall>e \<in> set rows. isData (snd e) \<Longrightarrow>
   consumeStream recording armed (rows @ (t, OnError msg) # rest) topo docs n ts md =
     Some (Inl (Error msg (Some \<lparr> count = n + length rows, time = t,
                                   timestamps = (if recording then ts @ map fst rows else ts),
                                   metadata = md \<rparr>)))"
proof (induction rows arbitrary: topo docs n ts)
  case Nil
  then show ?case by simp
next
  case (Cons e rows)
  obtain t' ev where e: "e = (t', ev)" by (cases e)
  from Cons.prems have rest: "\<forall>e \<in> set rows. isData (snd e)" and ev: "isData ev"
    by (simp_all add: e)
  from ev obtain r where r: "ev = OnData r" by (cases ev) simp_all
  show ?case using Cons.IH [OF rest] e r by (cases r) simp_all
qed

lemma measureQuery_rows_error:
  assumes "responses w (length (sent w)) = rows @ (t, OnError msg) # rest"
    and "rows \<noteq> []" and "\<forall>e \<in> set rows. isData (snd e)"
  shows "measureQuery cfg ev qname qid query (w, data) =
           Some (Inl (TypeError ''Cannot read properties of undefined (reading length)''))"
  using assms
  by (simp add: measureQuery_def dispatch_def executeQuery_def consumeStream_rows_error
      catchExecuteQuery_def calculateMetrics_def)

text \<open>
  C1. The claim lets a stream that emits rows and then fails leave a record with
  \<open>error = true\<close> and the number of rows as \<open>count\<close>, and lets the run go on. The error
  does carry that count as partial output, but the partial output has no
  \<^verbatim>\<open>contributingDocuments\<close>: with a positive count \<^verbatim>\<open>executeQueries\<close> reads the length of
  \<^verbatim>\<open>undefined\<close>, and the \<^verbatim>\<open>TypeError\<close> leaves \<^verbatim>\<open>executeQueries\<close> before any record is
  written and before the remaining queries \<open>test\<close> of the set are run.
\<close>

theorem rows_then_error_aborts:
  assumes "responses w (length (sent w)) = rows @ (t, OnError msg) # rest"
    and "rows \<noteq> []" and "\<forall>e \<in> set rows. isData (snd e)"
  shows "executeQuery cfg (rows @ (t, OnError msg) # rest) =
           Some (Inl (Error msg
             (Some \<lparr> count = length rows, time = t,
                     timestamps = (if timestampsRecording cfg then map fst rows else []),
                     metadata = [] \<rparr>)))
       \<and> executeOne cfg ev qname qid query (w, data) =
           Some (Inl (TypeError ''Cannot read properties of undefined (reading length)''))
       \<and> executeQuerySet cfg ev qname i (query # test) (w, data) =
           Some (Inl (TypeError ''Cannot read properties of undefined (reading length)''))"
  using assms(3) measureQuery_rows_error [OF assms, of cfg ev qname _ query data]
  by (simp add: executeQuery_def consumeStream_rows_error executeOne_def)

theorem rows_then_error_aborts_witness:
  "run (exampleArgs [''SELECT * WHERE { ?s ?p ?o }'', ''ASK { ?s ?p ?o }''] 1 None)
       exampleEvaluator noHooks (exampleWorld [fiveRows @ [(60, OnError ''socket hang up'')]])
     = Some (Inl (TypeError ''Cannot read properties of undefined (reading length)''))"
  using rows_then_error_aborts
    [of "(exampleWorld [fiveRows @ [(60, OnError ''socket hang up'')]])\<lparr>isUpCalls := Suc 0\<rparr>"
        fiveRows 60 "''socket hang up''" "[]"
        "exampleArgs [''SELECT * WHERE { ?s ?p ?o }'', ''ASK { ?s ?p ?o }''] 1 None"
        exampleEvaluator "''q''" "string_of_nat 0" "''SELECT * WHERE { ?s ?p ?o }''" Map.empty
        0 "[''ASK { ?s ?p ?o }'']"]
  by (simp add: run_def exampleArgs_def exampleWorld_def noHooks_def callHook_def fiveRows_def
      waitUntilUp_up js_index_def)


lemma combineTimestamps_length:
  "length (combineTimestamps i len old new) = length old"
proof (induction i len old new rule: combineTimestamps.induct)
  case (1 i len old new)
  show ?case
  proof (cases "i < len")
    case True
    with 1 show ?thesis by (subst combineTimestamps.simps) simp
  next
    case False
    then show ?thesis by (subst combineTimestamps.simps) simp
  qed
qed

lemma combineTimestamps_nth:
  "j < length old \<Longrightarrow>
   combineTimestamps i len old new ! j =
     (if i \<le> j \<and> j < len then old ! j + new ! j else old ! j)"
proof (induction i len old new rule: combineTimestamps.induct)
  case (1 i len old new)
  show ?case
  proof (cases "i < len")
    case True
    have "combineTimestamps i len old new ! j
            = combineTimestamps (i + 1) len (old[i := old ! i + new ! i]) new ! j"
      using True by (subst combineTimestamps.simps) simp
    also have "\<dots> = (if i + 1 \<le> j \<and> j < len
                      then (old[i := old ! i + new ! i]) ! j + new ! j
                      else (old[i := old ! i + new ! i]) ! j)"
      using 1 True by simp
    also have "\<dots> = (if i \<le> j \<and> j < len then old ! j + new ! j else old ! j)"
    proof (cases "i = j")
      case True
      with \<open>i < len\<close> "1.prems" show ?thesis by simp
    next
      case False
      with \<open>i < len\<close> "1.prems" show ?thesis by (auto simp: nth_list_update)
    qed
    finally show ?thesis .
  next
    case False
    then show ?thesis by (subst combineTimestamps.simps) auto
  qed
qed

lemma combineTimestamps_eq:
  "combineTimestamps 0 (min (length old) (length new)) old new =
     map2 (+) old new @ drop (length new) old"
  by (rule nth_equalityI)
     (auto simp: combineTimestamps_length combineTimestamps_nth nth_append)

lemma mergeEntry_eq:
  "mergeEntry dataEntry errorObject t ts =
     dataEntry\<lparr> IBenchmarkResult.error :=
                  IBenchmarkResult.error dataEntry \<or> errorObject \<noteq> None,
                time := time dataEntry + t,
                timestamps := map2 (+) (timestamps dataEntry) ts
                                @ drop (length ts) (timestamps dataEntry) \<rparr>"
  by (cases "errorObject = None") (simp_all add: mergeEntry_def Let_def combineTimestamps_eq)

text \<open>
  C10. When the key \<^verbatim>\<open>name + id\<close> already has a record, \<^verbatim>\<open>executeQueries\<close> replaces it by
  the same record with three fields changed, and no other key changes: the time grows by
  the new time; the timestamps are added position by position up to the shorter of the two
  lists, so their number stays and the later positions keep their values; the error flag is
  set when the new execution failed and is otherwise kept. \<open>count\<close>,
  \<open>metricsCalculated\<close>, \<open>metadata\<close>, \<open>name\<close> and \<open>id\<close> stay as they were.
\<close>

theorem merge_frame:
  assumes "data (qname @ qid) = Some dataEntry"
  shows "\<exists>merged.
           storeResult data qname qid m errorObject metrics = data(qname @ qid \<mapsto> merged)
         \<and> merged = dataEntry\<lparr> IBenchmarkResult.error :=
                                   IBenchmarkResult.error dataEntry \<or> errorObject \<noteq> None,
                                 time := time dataEntry + time m,
                                 timestamps := map2 (+) (timestamps dataEntry) (timestamps m)
                                   @ drop (length (timestamps m)) (timestamps dataEntry) \<rparr>
         \<and> count merged = count dataEntry
         \<and> metricsCalculated merged = metricsCalculated dataEntry
         \<and> metadata merged = metadata dataEntry
         \<and> IBenchmarkResult.name merged = IBenchmarkResult.name dataEntry
         \<and> id' merged = id' dataEntry
         \<and> time merged = time dataEntry + time m
         \<and> length (timestamps merged) = length (timestamps dataEntry)
         \<and> (\<forall>i < length (timestamps dataEntry).
               timestamps merged ! i =
                 (if i < length (timestamps m)
                  then timestamps dataEntry ! i + timestamps m ! i
                  else timestamps dataEntry ! i))
         \<and> (IBenchmarkResult.error merged
              \<longleftrightarrow> IBenchmarkResult.error dataEntry \<or> errorObject \<noteq> None)"
  using assms
  by (auto simp: storeResult_def mergeEntry_eq nth_append)

theorem merge_frame_witness:
  "\<exists>merged.
     storeResult
       [''q0'' \<mapsto> \<lparr> count = 3, time = 100, timestamps = [10, 20, 30], metadata = [],
                    IBenchmarkResult.name = ''q'', id' = ''0'', IBenchmarkResult.error = False,
                    metricsCalculated = [- 1, - 1, - 1, - 1] \<rparr>]
       ''q'' ''0'' \<lparr> count = 2, time = 200, timestamps = [1, 2], metadata = [] \<rparr>
       (Some (Error ''socket hang up'' None)) [7, 7, 7, 7]
       = [''q0'' \<mapsto> merged]
   \<and> merged = \<lparr> count = 3, time = 300, timestamps = [11, 22, 30], metadata = [],
                IBenchmarkResult.name = ''q'', id' = ''0'', IBenchmarkResult.error = True,
                metricsCalculated = [- 1, - 1, - 1, - 1] \<rparr>"
  using merge_frame
    [of "[''q0'' \<mapsto> \<lparr> count = 3, time = 100, timestamps = [10, 20, 30], metadata = [],
                    IBenchmarkResult.name = ''q'', id' = ''0'', IBenchmarkResult.error = False,
                    metricsCalculated = [- 1, - 1, - 1, - 1] \<rparr>]"
        "''q''" "''0''"
        "\<lparr> count = 3, time = 100, timestamps = [10, 20, 30], metadata = [],
           IBenchmarkResult.name = ''q'', id' = ''0'', IBenchmarkResult.error = False,
           metricsCalculated = [- 1, - 1, - 1, - 1] \<rparr>"
        "\<lparr> count = 2, time = 200, timestamps = [1, 2], metadata = [] \<rparr>"
        "Some (Error ''socket hang up'' None)" "[7, 7, 7, 7]"]
  by simp

lemma run_steps:
  "(run cfg ev options w = Some (Inr (w', results))) =
   (\<exists>w1 w2 warmupData w3 w4 accumulated.
       waitUntilUp w = Some w1
     \<and> executeQueries cfg ev (w1, Map.empty) (warmup cfg) = Some (Inr (w2, warmupData))
     \<and> callHook (onStart options) w2 = Some (Inr w3)
     \<and> executeQueries cfg ev (w3, Map.empty) (replication cfg) = Some (Inr (w4, accumulated))
     \<and> callHook (onStop options) w4 = Some (Inr w')
     \<and> results = averageResults (replication cfg) accumulated)"
  by (auto simp: run_def split: option.splits sum.splits prod.splits)

lemma run_two_iterations:
  "\<exists>w' results.
     run (exampleArgs [''SELECT * WHERE { ?s ?p ?o }''] 2 None) ev noHooks
         (exampleWorld [[(100, OnEnd)], [(200, OnEnd)]]) = Some (Inr (w', results))
   \<and> map_option time (results ''q0'') = Some 150"
  by (simp add: run_def exampleArgs_def exampleWorld_def noHooks_def waitUntilUp_up callHook_def
      numeral_2_eq_2 executeOne_def measureQuery_def dispatch_def executeQuery_def
      catchExecuteQuery_def calculateMetrics_def storeResult_def mergeEntry_def Let_def
      averageResults_def combineTimestamps.simps js_index_def string_of_nat_0)

text \<open>
  C7. \<^verbatim>\<open>run\<close> returns exactly when the wait for the endpoint, the warm-up iterations, the
  two hooks and the replication iterations of this run return, and what it returns is the
  map that these replication iterations of this run accumulated, with the time of every
  record, and every one of its timestamps, divided by the replication count and rounded
  down. For one query whose two iterations take 100 and 200 the returned time is 150.
\<close>

theorem run_averages:
  "(run cfg ev options w = Some (Inr (w', results))) =
     (\<exists>w1 w2 warmupData w3 w4 accumulated.
         waitUntilUp w = Some w1
       \<and> executeQueries cfg ev (w1, Map.empty) (warmup cfg) = Some (Inr (w2, warmupData))
       \<and> callHook (onStart options) w2 = Some (Inr w3)
       \<and> executeQueries cfg ev (w3, Map.empty) (replication cfg)
           = Some (Inr (w4, accumulated))
       \<and> callHook (onStop options) w4 = Some (Inr w')
       \<and> results =
           (\<lambda>key. case accumulated key of
                    None \<Rightarrow> None
                  | Some r \<Rightarrow>
                      Some (r\<lparr> time := of_int \<lfloor>time r / real (replication cfg)\<rfloor>,
                               timestamps := map (\<lambda>t. of_int \<lfloor>t / real (replication cfg)\<rfloor>)
                                                 (timestamps r) \<rparr>)))
   \<and> (\<exists>w2 results2.
         run (exampleArgs [''SELECT * WHERE { ?s ?p ?o }''] 2 None) ev noHooks
             (exampleWorld [[(100, OnEnd)], [(200, OnEnd)]]) = Some (Inr (w2, results2))
       \<and> map_option time (results2 ''q0'') = Some 150)"
  using run_steps [of cfg ev options w w' results] run_two_iterations [of ev]
  by (simp add: averageResults_def)

lemma run_three_iterations:
  "\<exists>w' results.
     run (exampleArgs [''SELECT * WHERE { ?s ?p ?o }''] 3 None) exampleEvaluator noHooks
         (exampleWorld [[(4, OnData PlainRow), (10, OnEnd)], [(5, OnData PlainRow), (11, OnEnd)],
                        [(8, OnData PlainRow), (12, OnEnd)]]) = Some (Inr (w', results))
   \<and> map_option time (results ''q0'') = Some 11
   \<and> map_option timestamps (results ''q0'') = Some [5]"
  by (simp add: run_def exampleArgs_def exampleWorld_def noHooks_def waitUntilUp_up callHook_def
      numeral_3_eq_3 executeOne_def measureQuery_def dispatch_def executeQuery_def
      catchExecuteQuery_def calculateMetrics_def storeResult_def mergeEntry_def Let_def
      averageResults_def combineTimestamps.simps js_index_def string_of_nat_0)

lemma three_iterations_accumulated:
  "executeQueries (exampleArgs [''SELECT * WHERE { ?s ?p ?o }''] 3 None) exampleEvaluator
       ((exampleWorld [[(4, OnData PlainRow), (10, OnEnd)], [(5, OnData PlainRow), (11, OnEnd)],
                       [(8, OnData PlainRow), (12, OnEnd)]])\<lparr>isUpCalls := Suc 0\<rparr>, Map.empty) 3
     = Some (Inr (w4, accumulated)) \<Longrightarrow>
   map_option time (accumulated ''q0'') = Some 33
   \<and> map_option timestamps (accumulated ''q0'') = Some [17]"
  by (auto simp add: exampleArgs_def exampleWorld_def
      numeral_3_eq_3 executeOne_def measureQuery_def dispatch_def executeQuery_def
      catchExecuteQuery_def calculateMetrics_def storeResult_def mergeEntry_def Let_def
      combineTimestamps.simps js_index_def string_of_nat_0)

theorem run_averages_witness:
  "\<exists>w' results w3 w4 accumulated.
     run (exampleArgs [''SELECT * WHERE { ?s ?p ?o }''] 3 None) exampleEvaluator noHooks
         (exampleWorld [[(4, OnData PlainRow), (10, OnEnd)], [(5, OnData PlainRow), (11, OnEnd)],
                        [(8, OnData PlainRow), (12, OnEnd)]]) = Some (Inr (w', results))
   \<and> executeQueries (exampleArgs [''SELECT * WHERE { ?s ?p ?o }''] 3 None) exampleEvaluator
         (w3, Map.empty) 3 = Some (Inr (w4, accumulated))
   \<and> map_option time (accumulated ''q0'') = Some 33
   \<and> map_option timestamps (accumulated ''q0'') = Some [17]
   \<and> map_option time (results ''q0'') = Some 11
   \<and> map_option timestamps (results ''q0'') = Some [5]"
proof -
  let ?args = "exampleArgs [''SELECT * WHERE { ?s ?p ?o }''] 3 None"
  let ?world = "exampleWorld [[(4, OnData PlainRow), (10, OnEnd)],
                  [(5, OnData PlainRow), (11, OnEnd)], [(8, OnData PlainRow), (12, OnEnd)]]"
  obtain w' results where r: "run ?args exampleEvaluator noHooks ?world = Some (Inr (w', results))"
    and t: "map_option time (results ''q0'') = Some 11"
    and ts: "map_option timestamps (results ''q0'') = Some [5]"
    using run_three_iterations by blast
  from r run_averages [of ?args exampleEvaluator noHooks ?world w' results]
  obtain w1 w2 warmupData w3 w4 accumulated where
    up: "waitUntilUp ?world = Some w1"
    and warm: "executeQueries ?args exampleEvaluator (w1, Map.empty) (warmup ?args)
                 = Some (Inr (w2, warmupData))"
    and start: "callHook (onStart noHooks) w2 = Some (Inr w3)"
    and acc: "executeQueries ?args exampleEvaluator (w3, Map.empty) (replication ?args)
                = Some (Inr (w4, accumulated))"
    by blast
  from up have w1: "w1 = ?world\<lparr>isUpCalls := Suc 0\<rparr>"
    by (simp add: waitUntilUp_up exampleWorld_def)
  from warm have w2: "w2 = w1" by (simp add: exampleArgs_def)
  from start have w3: "w3 = w2" by (simp add: noHooks_def callHook_def)
  from acc have acc3: "executeQueries ?args exampleEvaluator (w3, Map.empty) 3
                         = Some (Inr (w4, accumulated))"
    by (simp add: exampleArgs_def)
  from three_iterations_accumulated [OF acc3 [unfolded w3 w2 w1]]
  have "map_option time (accumulated ''q0'') = Some 33"
    and "map_option timestamps (accumulated ''q0'') = Some [17]" by simp_all
  with r acc3 t ts show ?thesis by blast
qed


lemma mergeEntry_zero:
  "mergeEntry dataEntry (Some e) 0 [] = dataEntry\<lparr>IBenchmarkResult.error := True\<rparr>"
  by (simp add: mergeEntry_eq)

lemma measureQuery_timeout:
  assumes "js_truthy_number (timeout cfg)" and "\<forall>e \<in> set before. \<not> completes (snd e)"
    and "responses w (length (sent w)) = before @ (t, TimerElapsed) # rest"
  shows "measureQuery cfg ev qname qid query (w, data) =
           Some (Inr (w\<lparr>sent := sent w @ [query]\<rparr>,
                      storeResult data qname qid
                        \<lparr> count = 0, time = 0, timestamps = [], metadata = [] \<rparr>
                        (Some (Error ''Timeout for running query'' None)) [- 1, - 1, - 1, - 1],
                      Some (Error ''Timeout for running query'' None)))"
  using assms
  by (simp add: measureQuery_def dispatch_def executeQuery_def consumeStream_timer
      catchExecuteQuery_def calculateMetrics_def)

text \<open>
  C8, as stated, fails: when the pair already has a record, the record after a timeout is
  not a zero measurement. A first iteration returns three rows in 100 ms, the second runs
  into the timeout: the record keeps count 3, time 100 and its three timestamps, and only
  its error flag is set.
\<close>

theorem timeout_on_existing_record:
  "(case executeQueries (exampleArgs [''SELECT * WHERE { ?s ?p ?o }''] 2 (Some 1000))
           exampleEvaluator (exampleWorld [threeRowsScript, timeoutScript], Map.empty) 2 of
      Some (Inr (w, data)) \<Rightarrow> data ''q0''
    | _ \<Rightarrow> None)
   = Some \<lparr> count = 3, time = 100, timestamps = [10, 20, 30], metadata = [],
            IBenchmarkResult.name = ''q'', id' = ''0'', IBenchmarkResult.error = True,
            metricsCalculated = [- 1, - 1, - 1, - 1] \<rparr>"
  by (simp add: exampleArgs_def exampleWorld_def threeRowsScript_def timeoutScript_def
      fiveRows_def numeral_2_eq_2 executeOne_def measureQuery_def dispatch_def executeQuery_def
      catchExecuteQuery_def calculateMetrics_def storeResult_def mergeEntry_def Let_def
      combineTimestamps.simps js_index_def string_of_nat_0 waitUntilUp_up)

text \<open>
  C8, amended. With a timeout configured, when the timer runs out before the stream fails
  or ends, \<^verbatim>\<open>executeQuery\<close> rejects with the timeout error, which has no partial output,
  and \<^verbatim>\<open>executeQueries\<close> takes the zero measurement for that execution (count 0, time 0,
  no timestamps, the four sentinels, no evaluator call). When the key has no record yet,
  the record created is that zero measurement with \<open>error = true\<close>. When the key has a
  record, the record keeps all its fields, and its error flag is set.
\<close>

theorem timeout_measurement:
  assumes "js_truthy_number (timeout cfg)" and "\<forall>e \<in> set before. \<not> completes (snd e)"
    and "responses w (length (sent w)) = before @ (t, TimerElapsed) # rest"
  shows "executeQuery cfg (before @ (t, TimerElapsed) # rest) =
           Some (Inl (Error ''Timeout for running query'' None))
       \<and> partialOutput (Error ''Timeout for running query'' None) = None
       \<and> catchExecuteQuery (Inl (Error ''Timeout for running query'' None)) =
           (\<lparr> count = 0, time = 0, timestamps = [], metadata = [] \<rparr>,
            Some emptyTopology, Some [], Some (Error ''Timeout for running query'' None))
       \<and> measureQuery cfg ev qname qid query (w, data) =
           Some (Inr (w\<lparr>sent := sent w @ [query]\<rparr>,
                      data(qname @ qid \<mapsto>
                        (case data (qname @ qid) of
                           None \<Rightarrow>
                             \<lparr> count = 0, time = 0, timestamps = [], metadata = [],
                               IBenchmarkResult.name = qname, id' = qid,
                               IBenchmarkResult.error = True,
                               metricsCalculated = [- 1, - 1, - 1, - 1] \<rparr>
                         | Some dataEntry \<Rightarrow> dataEntry\<lparr>IBenchmarkResult.error := True\<rparr>)),
                      Some (Error ''Timeout for running query'' None)))"
proof (intro conjI)
  show "executeQuery cfg (before @ (t, TimerElapsed) # rest) =
           Some (Inl (Error ''Timeout for running query'' None))"
    using assms(1,2) by (simp add: executeQuery_def consumeStream_timer)
  show "partialOutput (Error ''Timeout for running query'' None) = None"
    by simp
  show "catchExecuteQuery (Inl (Error ''Timeout for running query'' None)) =
           (\<lparr> count = 0, time = 0, timestamps = [], metadata = [] \<rparr>,
            Some emptyTopology, Some [], Some (Error ''Timeout for running query'' None))"
    by (simp add: catchExecuteQuery_def)
  show "measureQuery cfg ev qname qid query (w, data) =
           Some (Inr (w\<lparr>sent := sent w @ [query]\<rparr>,
                      data(qname @ qid \<mapsto>
                        (case data (qname @ qid) of
                           None \<Rightarrow>
                             \<lparr> count = 0, time = 0, timestamps = [], metadata = [],
                               IBenchmarkResult.name = qname, id' = qid,
                               IBenchmarkResult.error = True,
                               metricsCalculated = [- 1, - 1, - 1, - 1] \<rparr>
                         | Some dataEntry \<Rightarrow> dataEntry\<lparr>IBenchmarkResult.error := True\<rparr>)),
                      Some (Error ''Timeout for running query'' None)))"
    unfolding measureQuery_timeout [OF assms, of ev qname qid query data]
    by (cases "data (qname @ qid)") (simp_all add: storeResult_def mergeEntry_zero)
qed

theorem timeout_measurement_witness:
  "measureQuery (exampleArgs [''SELECT * WHERE { ?s ?p ?o }''] 1 (Some 1000)) exampleEvaluator
       ''q'' ''0'' ''SELECT * WHERE { ?s ?p ?o }'' (exampleWorld [timeoutScript], Map.empty)
     = Some (Inr ((exampleWorld [timeoutScript])\<lparr>sent := [''SELECT * WHERE { ?s ?p ?o }'']\<rparr>,
                  [''q0'' \<mapsto>
                     \<lparr> count = 0, time = 0, timestamps = [], metadata = [],
                       IBenchmarkResult.name = ''q'', id' = ''0'',
                       IBenchmarkResult.error = True,
                       metricsCalculated = [- 1, - 1, - 1, - 1] \<rparr>],
                  Some (Error ''Timeout for running query'' None)))
   \<and> measureQuery (exampleArgs [''SELECT * WHERE { ?s ?p ?o }''] 1 (Some 1000)) exampleEvaluator
       ''q'' ''0'' ''SELECT * WHERE { ?s ?p ?o }''
       (exampleWorld [timeoutScript], [''q0'' \<mapsto> earlierRecord])
     = Some (Inr ((exampleWorld [timeoutScript])\<lparr>sent := [''SELECT * WHERE { ?s ?p ?o }'']\<rparr>,
                  [''q0'' \<mapsto>
                     \<lparr> count = 3, time = 100, timestamps = [10, 20, 30], metadata = [],
                       IBenchmarkResult.name = ''q'', id' = ''0'',
                       IBenchmarkResult.error = True,
                       metricsCalculated = [- 1, - 1, - 1, - 1] \<rparr>],
                  Some (Error ''Timeout for running query'' None)))"
  using timeout_measurement
    [of "exampleArgs [''SELECT * WHERE { ?s ?p ?o }''] 1 (Some 1000)" fiveRows
        "exampleWorld [timeoutScript]" 1000 "[(1200, OnEnd)]"
        exampleEvaluator "''q''" "''0''" "''SELECT * WHERE { ?s ?p ?o }''" Map.empty]
    timeout_measurement
    [of "exampleArgs [''SELECT * WHERE { ?s ?p ?o }''] 1 (Some 1000)" fiveRows
        "exampleWorld [timeoutScript]" 1000 "[(1200, OnEnd)]"
        exampleEvaluator "''q''" "''0''" "''SELECT * WHERE { ?s ?p ?o }''"
        "[''q0'' \<mapsto> earlierRecord]"]
  by (simp add: exampleArgs_def exampleWorld_def timeoutScript_def fiveRows_def js_index_def
      earlierRecord_def)


section \<open>Properties of the result aggregator\<close>

lemma map_of_record_set: "map_of (record_set r k v) = (map_of r)(k \<mapsto> v)"
  by (induction r) (auto simp: fun_eq_iff)

lemma keys_record_set:
  "map fst (record_set r k v) = (if k \<in> fst ` set r then map fst r else map fst r @ [k])"
proof (induction r)
  case Nil
  then show ?case by simp
next
  case (Cons kv r)
  obtain k' v' where kv: "kv = (k', v')" by (cases kv)
  show ?case using Cons.IH by (cases "k' = k") (simp_all add: kv)
qed

lemma set_keys_record_set: "fst ` set (record_set r k v) = insert k (fst ` set r)"
proof -
  have "fst ` set (record_set r k v) = set (map fst (record_set r k v))" by simp
  also have "\<dots> = insert k (fst ` set r)"
    unfolding keys_record_set by auto
  finally show ?thesis .
qed

lemma distinct_keys_record_set:
  "distinct (map fst r) \<Longrightarrow> distinct (map fst (record_set r k v))"
  by (simp add: keys_record_set)

lemma record_set_twice: "record_set (record_set r k v) k v' = record_set r k v'"
  by (induction r) auto

lemma map_of_None_keys: "map_of r k = None \<longleftrightarrow> k \<notin> fst ` set r"
  by (simp add: map_of_eq_None_iff)

lemma groupResultsLoop_step:
  "IResult.template r \<notin> set objectPrototypeKeys \<Longrightarrow>
   groupResultsLoop (r # rs) templates =
     groupResultsLoop rs
       (record_set templates (IResult.template r)
          ((case map_of templates (IResult.template r) of None \<Rightarrow> [] | Some g \<Rightarrow> g)
           @ [r\<lparr>sequence := Some (IResult.name r), IResult.name := IResult.template r\<rparr>]))"
  by (cases "map_of templates (IResult.template r)")
     (simp_all add: Let_def js_in_def map_of_record_set record_set_twice)

lemma groupResultsLoop_inherited:
  "IResult.template r \<in> set objectPrototypeKeys \<Longrightarrow>
   map_of templates (IResult.template r) = None \<Longrightarrow>
   groupResultsLoop (r # rs) templates =
     Inl (TypeError ''templates[template].push is not a function'')"
  by (simp add: Let_def js_in_def)

lemma groupResultsLoop_own:
  "\<forall>r \<in> set rs. IResult.template r \<notin> set objectPrototypeKeys \<Longrightarrow>
   distinct (map fst templates) \<Longrightarrow>
   \<exists>groups. groupResultsLoop rs templates = Inr groups
     \<and> distinct (map fst groups)
     \<and> fst ` set groups = fst ` set templates \<union> IResult.template ` set rs
     \<and> (\<forall>t. map_of groups t =
            (if t \<in> IResult.template ` set rs \<or> map_of templates t \<noteq> None
             then Some ((case map_of templates t of None \<Rightarrow> [] | Some g \<Rightarrow> g)
                        @ map (\<lambda>r. r\<lparr>sequence := Some (IResult.name r),
                                      IResult.name := IResult.template r\<rparr>)
                              (filter (\<lambda>r. IResult.template r = t) rs))
             else None))"
proof (induction rs arbitrary: templates)
  case Nil
  then show ?case by (auto split: option.splits)
next
  case (Cons r rs)
  let ?T = "record_set templates (IResult.template r)
              ((case map_of templates (IResult.template r) of None \<Rightarrow> [] | Some g \<Rightarrow> g)
               @ [r\<lparr>sequence := Some (IResult.name r), IResult.name := IResult.template r\<rparr>])"
  from Cons.prems(1) have own: "IResult.template r \<notin> set objectPrototypeKeys"
    and rest: "\<forall>r \<in> set rs. IResult.template r \<notin> set objectPrototypeKeys" by simp_all
  have d: "distinct (map fst ?T)"
    using Cons.prems(2) by (rule distinct_keys_record_set)
  from Cons.IH [OF rest d] obtain groups where
    g: "groupResultsLoop rs ?T = Inr groups" "distinct (map fst groups)"
       "fst ` set groups = fst ` set ?T \<union> IResult.template ` set rs"
    and m: "\<forall>t. map_of groups t =
            (if t \<in> IResult.template ` set rs \<or> map_of ?T t \<noteq> None
             then Some ((case map_of ?T t of None \<Rightarrow> [] | Some g \<Rightarrow> g)
                        @ map (\<lambda>r. r\<lparr>sequence := Some (IResult.name r),
                                      IResult.name := IResult.template r\<rparr>)
                              (filter (\<lambda>r. IResult.template r = t) rs))
             else None)"
    by blast
  have "groupResultsLoop (r # rs) templates = Inr groups"
    using g(1) by (simp only: groupResultsLoop_step [OF own])
  moreover have "fst ` set groups = fst ` set templates \<union> IResult.template ` set (r # rs)"
    using g(3) by (simp add: set_keys_record_set)
  moreover have "\<forall>t. map_of groups t =
            (if t \<in> IResult.template ` set (r # rs) \<or> map_of templates t \<noteq> None
             then Some ((case map_of templates t of None \<Rightarrow> [] | Some g \<Rightarrow> g)
                        @ map (\<lambda>r. r\<lparr>sequence := Some (IResult.name r),
                                      IResult.name := IResult.template r\<rparr>)
                              (filter (\<lambda>r. IResult.template r = t) (r # rs)))
             else None)"
    using m unfolding map_of_record_set by (auto split: option.splits)
  ultimately show ?case using g(2) by blast
qed

lemma groupResultsLoop_throws:
  "res \<in> set rs \<Longrightarrow> IResult.template res \<in> set objectPrototypeKeys \<Longrightarrow>
   fst ` set templates \<inter> set objectPrototypeKeys = {} \<Longrightarrow>
   groupResultsLoop rs templates =
     Inl (TypeError ''templates[template].push is not a function'')"
proof (induction rs arbitrary: templates)
  case Nil
  then show ?case by simp
next
  case (Cons r rs)
  show ?case
  proof (cases "IResult.template r \<in> set objectPrototypeKeys")
    case True
    with Cons.prems(3) have "IResult.template r \<notin> fst ` set templates" by blast
    then have "map_of templates (IResult.template r) = None"
      by (simp add: map_of_None_keys)
    with True show ?thesis by (rule groupResultsLoop_inherited)
  next
    case False
    with Cons.prems(1,2) have mem: "res \<in> set rs" by auto
    let ?T = "record_set templates (IResult.template r)
                ((case map_of templates (IResult.template r) of None \<Rightarrow> [] | Some g \<Rightarrow> g)
                 @ [r\<lparr>sequence := Some (IResult.name r), IResult.name := IResult.template r\<rparr>])"
    have "fst ` set ?T \<inter> set objectPrototypeKeys = {}"
      using Cons.prems(3) False by (simp add: set_keys_record_set)
    from Cons.IH [OF mem Cons.prems(2) this] show ?thesis
      by (simp only: groupResultsLoop_step [OF False])
  qed
qed

text \<open>
  C9. The claim gives every list of results one group for each template name. For a list
  in which no template is the name of a property that \<^verbatim>\<open>{}\<close> inherits,
  \<^verbatim>\<open>groupResults\<close> does return that: one group for every template name that occurs and
  none for any other name, the group of a template holding, in their order, all results
  with that template, each with \<open>sequence\<close> set to its former name and \<open>name\<close> set to
  the template (two results named \<open>q0\<close> and \<open>q1\<close> with template \<open>T1\<close> give the
  single group \<open>T1\<close> with both). For a list that holds a result whose template is such a
  name, \<^verbatim>\<open>toString\<close> for one, \<^verbatim>\<open>template in templates\<close> is true before any group
  exists, and \<^verbatim>\<open>groupResults\<close> raises a \<^verbatim>\<open>TypeError\<close> and returns no groups.
\<close>

theorem groupResults_inherited_template:
  "((\<exists>res \<in> set results. IResult.template res \<in> set objectPrototypeKeys) \<longrightarrow>
      groupResults results = Inl (TypeError ''templates[template].push is not a function''))
   \<and> ((\<forall>res \<in> set results. IResult.template res \<notin> set objectPrototypeKeys) \<longrightarrow>
      (\<exists>groups. groupResults results = Inr groups
         \<and> distinct (map fst groups)
         \<and> fst ` set groups = IResult.template ` set results
         \<and> (\<forall>t. map_of groups t =
               (if t \<in> IResult.template ` set results
                then Some (map (\<lambda>r. r\<lparr>sequence := Some (IResult.name r),
                                      IResult.name := IResult.template r\<rparr>)
                               (filter (\<lambda>r. IResult.template r = t) results))
                else None))))
   \<and> groupResults [exampleResult ''q0'' ''T1'' h0 e0, exampleResult ''q1'' ''T1'' h1 e1] =
       Inr [(''T1'', [(exampleResult ''q0'' ''T1'' h0 e0)
                         \<lparr>sequence := Some ''q0'', IResult.name := ''T1''\<rparr>,
                      (exampleResult ''q1'' ''T1'' h1 e1)
                         \<lparr>sequence := Some ''q1'', IResult.name := ''T1''\<rparr>])]
   \<and> groupResults [exampleResult ''q0'' ''toString'' h0 e0] =
       Inl (TypeError ''templates[template].push is not a function'')"
proof (intro conjI impI)
  assume "\<exists>res \<in> set results. IResult.template res \<in> set objectPrototypeKeys"
  then obtain res where "res \<in> set results" "IResult.template res \<in> set objectPrototypeKeys"
    by blast
  then show "groupResults results =
               Inl (TypeError ''templates[template].push is not a function'')"
    unfolding groupResults_def by (rule groupResultsLoop_throws) simp
next
  assume "\<forall>res \<in> set results. IResult.template res \<notin> set objectPrototypeKeys"
  from groupResultsLoop_own [OF this, of "[]"]
  show "\<exists>groups. groupResults results = Inr groups
         \<and> distinct (map fst groups)
         \<and> fst ` set groups = IResult.template ` set results
         \<and> (\<forall>t. map_of groups t =
               (if t \<in> IResult.template ` set results
                then Some (map (\<lambda>r. r\<lparr>sequence := Some (IResult.name r),
                                      IResult.name := IResult.template r\<rparr>)
                               (filter (\<lambda>r. IResult.template r = t) results))
                else None))"
    by (simp add: groupResults_def cong: if_cong)
next
  show "groupResults [exampleResult ''q0'' ''T1'' h0 e0, exampleResult ''q1'' ''T1'' h1 e1] =
       Inr [(''T1'', [(exampleResult ''q0'' ''T1'' h0 e0)
                         \<lparr>sequence := Some ''q0'', IResult.name := ''T1''\<rparr>,
                      (exampleResult ''q1'' ''T1'' h1 e1)
                         \<lparr>sequence := Some ''q1'', IResult.name := ''T1''\<rparr>])]"
    by (simp add: groupResults_def exampleResult_def Let_def js_in_def objectPrototypeKeys_def)
next
  show "groupResults [exampleResult ''q0'' ''toString'' h0 e0] =
       Inl (TypeError ''templates[template].push is not a function'')"
    by (simp add: groupResults_def exampleResult_def Let_def js_in_def objectPrototypeKeys_def)
qed

theorem groupResults_inherited_template_witness:
  "groupResults [exampleResult ''a0'' ''T1'' None False,
                 exampleResult ''b0'' ''constructor'' None False,
                 exampleResult ''a1'' ''T1'' None True]
     = Inl (TypeError ''templates[template].push is not a function'')
   \<and> (\<exists>groups.
         groupResults [exampleResult ''a0'' ''T1'' None False,
                       exampleResult ''b0'' ''T2'' None False,
                       exampleResult ''a1'' ''T1'' None True] = Inr groups
       \<and> map fst groups = [''T1'', ''T2'']
       \<and> map_of groups ''T1''
           = Some [(exampleResult ''a0'' ''T1'' None False)
                     \<lparr>sequence := Some ''a0'', IResult.name := ''T1''\<rparr>,
                   (exampleResult ''a1'' ''T1'' None True)
                     \<lparr>sequence := Some ''a1'', IResult.name := ''T1''\<rparr>])"
proof -
  have own: "groupResults [exampleResult ''a0'' ''T1'' None False,
                           exampleResult ''b0'' ''T2'' None False,
                           exampleResult ''a1'' ''T1'' None True]
        = Inr [(''T1'', [(exampleResult ''a0'' ''T1'' None False)
                           \<lparr>sequence := Some ''a0'', IResult.name := ''T1''\<rparr>,
                         (exampleResult ''a1'' ''T1'' None True)
                           \<lparr>sequence := Some ''a1'', IResult.name := ''T1''\<rparr>]),
               (''T2'', [(exampleResult ''b0'' ''T2'' None False)
                           \<lparr>sequence := Some ''b0'', IResult.name := ''T2''\<rparr>])]"
    by (simp add: groupResults_def exampleResult_def Let_def js_in_def objectPrototypeKeys_def)
  have "groupResults [exampleResult ''a0'' ''T1'' None False,
                      exampleResult ''b0'' ''constructor'' None False,
                      exampleResult ''a1'' ''T1'' None True]
     = Inl (TypeError ''templates[template].push is not a function'')"
    using groupResults_inherited_template
      [of "[exampleResult ''a0'' ''T1'' None False, exampleResult ''b0'' ''constructor'' None False,
            exampleResult ''a1'' ''T1'' None True]"]
    by (simp add: exampleResult_def objectPrototypeKeys_def)
  with own show ?thesis by simp
qed


lemma Max_insert_max:
  "finite A \<Longrightarrow> Max (insert (max a b) A) = Max (insert a (insert b A))"
  for a :: real
  by (cases "A = {}") (simp_all add: max.assoc)

lemma Min_insert_min:
  "finite A \<Longrightarrow> Min (insert (min a b) A) = Min (insert a (insert b A))"
  for a :: real
  by (cases "A = {}") (simp_all add: min.assoc)

lemma requestsLoop_running:
  "n > 0 \<Longrightarrow>
   requestsLoop hs (s, mx, mn, n) =
     (s + sum_list hs, Max (insert mx (set hs)), Min (insert mn (set hs)), n + length hs)"
proof (induction hs arbitrary: s mx mn n)
  case Nil
  then show ?case by simp
next
  case (Cons h hs)
  have "requestsLoop (h # hs) (s, mx, mn, n) =
          requestsLoop hs (s + h, max mx h, min mn h, n + 1)"
    using Cons.prems by simp
  also have "\<dots> = (s + h + sum_list hs, Max (insert (max mx h) (set hs)),
                    Min (insert (min mn h) (set hs)), n + 1 + length hs)"
    by (rule Cons.IH) simp
  finally show ?case
    by (simp add: Max_insert_max Min_insert_min add.assoc)
qed

lemma requestsLoop_start:
  "hs \<noteq> [] \<Longrightarrow>
   requestsLoop hs (0, 0, 0, 0) = (sum_list hs, Max (set hs), Min (set hs), length hs)"
  by (cases hs) (simp_all add: requestsLoop_running)

lemma successfulRequests_eq:
  "successfulRequests g =
     map (\<lambda>r. the (IResult.httpRequests r))
         (filter (\<lambda>r. \<not> IResult.error r \<and> IResult.httpRequests r \<noteq> None) g)"
  by (induction g) (auto split: option.splits bool.splits)

lemma deviationLoop_update:
  "\<exists>v. deviationLoop g a = a\<lparr>httpRequestsStd := v\<rparr>"
proof (induction g arbitrary: a)
  case Nil
  show ?case by (rule exI [of _ "httpRequestsStd a"]) simp
next
  case (Cons r g)
  show ?case
  proof (cases "IResult.error r")
    case True
    then show ?thesis using Cons.IH [of a] by simp
  next
    case False
    let ?a' = "a\<lparr>httpRequestsStd :=
               Some (js_add (js_property (httpRequestsStd a))
                       (js_square (js_sub (js_to_number (IResult.httpRequests r))
                                          (js_property (httpRequests a)))))\<rparr>"
    from Cons.IH [of ?a'] obtain v where "deviationLoop g ?a' = ?a'\<lparr>httpRequestsStd := v\<rparr>" ..
    then show ?thesis using False by (intro exI [of _ v]) simp
  qed
qed

lemma js_add_NaN: "js_add x NaN = NaN"
  by (cases x) simp_all

lemma deviationLoop_NaN:
  "httpRequestsStd a = Some NaN \<Longrightarrow> httpRequestsStd (deviationLoop g a) = Some NaN"
  by (induction g arbitrary: a) simp_all

lemma deviationLoop_non_number:
  "r \<in> set g \<Longrightarrow> \<not> IResult.error r \<Longrightarrow> IResult.httpRequests r = None \<Longrightarrow>
   httpRequestsStd (deviationLoop g a) = Some NaN"
proof (induction g arbitrary: a)
  case Nil
  then show ?case by simp
next
  case (Cons x g)
  show ?case
  proof (cases "x = r")
    case True
    then show ?thesis using Cons.prems by (simp add: deviationLoop_NaN js_add_NaN)
  next
    case False
    then have "r \<in> set g" using Cons.prems by simp
    from Cons.IH [OF this Cons.prems(2,3)] show ?thesis by simp
  qed
qed

lemma deviationLoop_numbers:
  "\<forall>r \<in> set g. \<not> IResult.error r \<longrightarrow> IResult.httpRequests r \<noteq> None \<Longrightarrow>
   httpRequests a = Some (Num mean) \<Longrightarrow> httpRequestsStd a = Some (Num acc) \<Longrightarrow>
   httpRequestsStd (deviationLoop g a) =
     Some (Num (acc + (\<Sum>h\<leftarrow>successfulRequests g. (h - mean) * (h - mean))))"
proof (induction g arbitrary: a acc)
  case Nil
  then show ?case by simp
next
  case (Cons r g)
  from Cons.prems(1)
  have rest: "\<forall>r \<in> set g. \<not> IResult.error r \<longrightarrow> IResult.httpRequests r \<noteq> None"
    by simp
  show ?case
  proof (cases "IResult.error r")
    case True
    then show ?thesis using Cons.IH [OF rest Cons.prems(2,3)] by simp
  next
    case False
    with Cons.prems(1) obtain h where h: "IResult.httpRequests r = Some h" by auto
    let ?a' = "a\<lparr>httpRequestsStd := Some (Num (acc + (h - mean) * (h - mean)))\<rparr>"
    have "httpRequestsStd (deviationLoop g ?a') =
            Some (Num (acc + (h - mean) * (h - mean)
                       + (\<Sum>h\<leftarrow>successfulRequests g. (h - mean) * (h - mean))))"
      by (rule Cons.IH [OF rest]) (simp_all add: Cons.prems)
    then show ?thesis using False h Cons.prems(2,3) by (simp add: add.assoc)
  qed
qed

text \<open>The aggregate after the first loop and the deviation loop, before the square root.\<close>

lemma aggregateGroup_unfold:
  assumes "successfulRequests g \<noteq> []"
  shows "\<exists>v. deviationLoop g
               (a\<lparr> httpRequests :=
                      Some (Num (sum_list (successfulRequests g)
                                 / real (length (successfulRequests g)))),
                    httpRequestsMax := Some (Num (Max (set (successfulRequests g)))),
                    httpRequestsMin := Some (Num (Min (set (successfulRequests g)))),
                    httpRequestsStd := Some (Num 0) \<rparr>)
             = a\<lparr> httpRequests :=
                     Some (Num (sum_list (successfulRequests g)
                                / real (length (successfulRequests g)))),
                   httpRequestsMax := Some (Num (Max (set (successfulRequests g)))),
                   httpRequestsMin := Some (Num (Min (set (successfulRequests g)))),
                   httpRequestsStd := v \<rparr>
           \<and> aggregateGroup g a =
               a\<lparr> httpRequests :=
                     Some (Num (sum_list (successfulRequests g)
                                / real (length (successfulRequests g)))),
                   httpRequestsMax := Some (Num (Max (set (successfulRequests g)))),
                   httpRequestsMin := Some (Num (Min (set (successfulRequests g)))),
                   httpRequestsStd :=
                     Some (js_sqrt (js_div_count (js_property v)
                                      (length (successfulRequests g)))) \<rparr>"
proof -
  let ?hs = "successfulRequests g"
  let ?a1 = "a\<lparr> httpRequests := Some (Num (sum_list ?hs / real (length ?hs))),
                 httpRequestsMax := Some (Num (Max (set ?hs))),
                 httpRequestsMin := Some (Num (Min (set ?hs))),
                 httpRequestsStd := Some (Num 0) \<rparr>"
  have len: "length ?hs > 0" using assms by simp
  obtain v where v: "deviationLoop g ?a1 = ?a1\<lparr>httpRequestsStd := v\<rparr>"
    using deviationLoop_update by blast
  have "aggregateGroup g a =
          (deviationLoop g ?a1)\<lparr>httpRequestsStd :=
             Some (js_sqrt (js_div_count (js_property (httpRequestsStd (deviationLoop g ?a1)))
                              (length ?hs)))\<rparr>"
    using len by (simp add: aggregateGroup_def requestsLoop_start [OF assms] Let_def)
  then show ?thesis using v by (intro exI [of _ v]) simp
qed

lemma aggregateGroup_first_three:
  assumes "successfulRequests g \<noteq> []"
  shows "httpRequests (aggregateGroup g a) =
           Some (Num (sum_list (successfulRequests g) / real (length (successfulRequests g))))
       \<and> httpRequestsMax (aggregateGroup g a) = Some (Num (Max (set (successfulRequests g))))
       \<and> httpRequestsMin (aggregateGroup g a) = Some (Num (Min (set (successfulRequests g))))"
  using aggregateGroup_unfold [OF assms, of a] by auto

lemma aggregateGroup_numbers:
  assumes "successfulRequests g \<noteq> []"
    and "\<forall>r \<in> set g. \<not> IResult.error r \<longrightarrow> IResult.httpRequests r \<noteq> None"
  shows "aggregateGroup g a =
     (let hs = successfulRequests g; mean = sum_list hs / real (length hs) in
      a\<lparr> httpRequests := Some (Num mean),
         httpRequestsMax := Some (Num (Max (set hs))),
         httpRequestsMin := Some (Num (Min (set hs))),
         httpRequestsStd :=
           Some (Num (sqrt ((\<Sum>h\<leftarrow>hs. (h - mean) * (h - mean)) / real (length hs)))) \<rparr>)"
proof -
  let ?hs = "successfulRequests g"
  let ?mean = "sum_list ?hs / real (length ?hs)"
  let ?a1 = "a\<lparr> httpRequests := Some (Num ?mean),
                 httpRequestsMax := Some (Num (Max (set ?hs))),
                 httpRequestsMin := Some (Num (Min (set ?hs))),
                 httpRequestsStd := Some (Num 0) \<rparr>"
  from aggregateGroup_unfold [OF assms(1), of a] obtain v where
    v: "deviationLoop g ?a1 = ?a1\<lparr>httpRequestsStd := v\<rparr>"
    and agg: "aggregateGroup g a =
               ?a1\<lparr>httpRequestsStd := Some (js_sqrt (js_div_count (js_property v) (length ?hs)))\<rparr>"
    by auto
  have "httpRequestsStd (deviationLoop g ?a1) =
          Some (Num (0 + (\<Sum>h\<leftarrow>?hs. (h - ?mean) * (h - ?mean))))"
    by (rule deviationLoop_numbers [OF assms(2)]) simp_all
  with v have v': "v = Some (Num (\<Sum>h\<leftarrow>?hs. (h - ?mean) * (h - ?mean)))" by simp
  have nonneg: "0 \<le> (\<Sum>h\<leftarrow>?hs. (h - ?mean) * (h - ?mean)) / real (length ?hs)"
    by (intro divide_nonneg_nonneg sum_list_nonneg) auto
  show ?thesis using nonneg by (simp add: agg v' Let_def)
qed

text \<open>
  C4. The claim excludes a result whose \<^verbatim>\<open>httpRequests\<close> is not a number from all four
  statistics of its group. Mean, maximum and minimum do leave it out: they are taken over
  \<open>successfulRequests\<close>. The loop that sums the squared deviations tests only the error
  flag, so a result without an error and without a number adds \<^verbatim>\<open>NaN\<close>, and the
  standard deviation of the group is \<^verbatim>\<open>NaN\<close>.
\<close>

theorem non_number_enters_deviation:
  assumes "successfulRequests resultGroup \<noteq> []"
    and "res \<in> set resultGroup" and "\<not> IResult.error res"
    and "IResult.httpRequests res = None"
  shows "httpRequestsStd (aggregateGroup resultGroup aggregate) = Some NaN
       \<and> httpRequests (aggregateGroup resultGroup aggregate) =
           Some (Num (sum_list (successfulRequests resultGroup)
                      / real (length (successfulRequests resultGroup))))
       \<and> httpRequestsMax (aggregateGroup resultGroup aggregate) =
           Some (Num (Max (set (successfulRequests resultGroup))))
       \<and> httpRequestsMin (aggregateGroup resultGroup aggregate) =
           Some (Num (Min (set (successfulRequests resultGroup))))"
proof -
  from aggregateGroup_unfold [OF assms(1), of aggregate] obtain v where
    v: "deviationLoop resultGroup
          (aggregate\<lparr> httpRequests :=
                        Some (Num (sum_list (successfulRequests resultGroup)
                                   / real (length (successfulRequests resultGroup)))),
                      httpRequestsMax := Some (Num (Max (set (successfulRequests resultGroup)))),
                      httpRequestsMin := Some (Num (Min (set (successfulRequests resultGroup)))),
                      httpRequestsStd := Some (Num 0) \<rparr>)
        = aggregate\<lparr> httpRequests :=
                        Some (Num (sum_list (successfulRequests resultGroup)
                                   / real (length (successfulRequests resultGroup)))),
                      httpRequestsMax := Some (Num (Max (set (successfulRequests resultGroup)))),
                      httpRequestsMin := Some (Num (Min (set (successfulRequests resultGroup)))),
                      httpRequestsStd := v \<rparr>"
    and agg: "httpRequestsStd (aggregateGroup resultGroup aggregate) =
                Some (js_sqrt (js_div_count (js_property v)
                                 (length (successfulRequests resultGroup))))"
    by auto
  have "httpRequestsStd
          (deviationLoop resultGroup
             (aggregate\<lparr> httpRequests :=
                           Some (Num (sum_list (successfulRequests resultGroup)
                                      / real (length (successfulRequests resultGroup)))),
                         httpRequestsMax := Some (Num (Max (set (successfulRequests resultGroup)))),
                         httpRequestsMin := Some (Num (Min (set (successfulRequests resultGroup)))),
                         httpRequestsStd := Some (Num 0) \<rparr>)) = Some NaN"
    by (rule deviationLoop_non_number [OF assms(2,3,4)])
  then have "v = Some NaN"
    unfolding v by simp
  with agg aggregateGroup_first_three [OF assms(1), of aggregate] show ?thesis by simp
qed

lemma aggregateResults_groupWithoutNumber:
  "aggregateResults exampleAggregateGroupedResults groupWithoutNumber =
     Inr [\<lparr> name = ''T1'', httpRequests = Some (Num 15), httpRequestsMax = Some (Num 20),
            httpRequestsMin = Some (Num 10), httpRequestsStd = Some NaN \<rparr>]"
  by (simp add: aggregateResults_def groupWithoutNumber_def exampleResult_def groupResults_def
      exampleAggregateGroupedResults_def emptyAggregate_def groupAggregateResults_def
      aggregateGroup_def Let_def js_in_def objectPrototypeKeys_def)

theorem non_number_enters_deviation_witness:
  "httpRequestsStd (aggregateGroup groupWithoutNumber (emptyAggregate ''T1'')) = Some NaN
   \<and> httpRequests (aggregateGroup groupWithoutNumber (emptyAggregate ''T1'')) = Some (Num 15)
   \<and> httpRequestsMax (aggregateGroup groupWithoutNumber (emptyAggregate ''T1'')) = Some (Num 20)
   \<and> httpRequestsMin (aggregateGroup groupWithoutNumber (emptyAggregate ''T1'')) = Some (Num 10)
   \<and> aggregateResults exampleAggregateGroupedResults groupWithoutNumber =
       Inr [\<lparr> name = ''T1'', httpRequests = Some (Num 15), httpRequestsMax = Some (Num 20),
              httpRequestsMin = Some (Num 10), httpRequestsStd = Some NaN \<rparr>]"
  using non_number_enters_deviation
    [of groupWithoutNumber "exampleResult ''q2'' ''T1'' None False" "emptyAggregate ''T1''"]
    aggregateResults_groupWithoutNumber
  by (simp add: groupWithoutNumber_def exampleResult_def)


lemma specRequests_eq: "specRequests g = successfulRequests g"
  by (simp add: specRequests_def successfulRequests_eq)

lemma aggregateGroup_agrees:
  assumes "specRequests g \<noteq> []"
    and "\<forall>r \<in> set g. \<not> IResult.error r \<longrightarrow> IResult.httpRequests r \<noteq> None"
  shows "aggregateGroup g a =
           a\<lparr> httpRequests := Some (Num (populationMean (specRequests g))),
              httpRequestsMax := Some (Num (Max (set (specRequests g)))),
              httpRequestsMin := Some (Num (Min (set (specRequests g)))),
              httpRequestsStd := Some (Num (populationStd (specRequests g))) \<rparr>"
  using assms aggregateGroup_numbers [of g a]
  by (simp add: specRequests_eq populationMean_def populationStd_def Let_def)

lemma aggregateGroup_deviation_NaN:
  assumes "specRequests g \<noteq> []"
    and "res \<in> set g" and "\<not> IResult.error res" and "IResult.httpRequests res = None"
  shows "httpRequestsStd (aggregateGroup g a) = Some NaN"
proof -
  let ?hs = "successfulRequests g"
  let ?a1 = "a\<lparr> httpRequests := Some (Num (sum_list ?hs / real (length ?hs))),
                 httpRequestsMax := Some (Num (Max (set ?hs))),
                 httpRequestsMin := Some (Num (Min (set ?hs))),
                 httpRequestsStd := Some (Num 0) \<rparr>"
  from assms(1) have ne: "?hs \<noteq> []" by (simp add: specRequests_eq)
  from aggregateGroup_unfold [OF ne, of a] obtain v where
    v: "deviationLoop g ?a1 = ?a1\<lparr>httpRequestsStd := v\<rparr>"
    and agg: "httpRequestsStd (aggregateGroup g a) =
                Some (js_sqrt (js_div_count (js_property v) (length ?hs)))"
    by auto
  have "httpRequestsStd (deviationLoop g ?a1) = Some NaN"
    by (rule deviationLoop_non_number [OF assms(2,3,4)])
  then have "v = Some NaN" unfolding v by simp
  with agg show ?thesis by simp
qed

text \<open>
  C5. On a group whose members without an error flag all have an \<^verbatim>\<open>httpRequests\<close>
  number, the aggregate is what the claim says: mean, maximum and minimum of the numbers of
  these members and their population standard deviation around that mean, the sum of the
  squared deviations divided by their count; for \<open>[10, 20, error]\<close> it is 15, 20, 10
  and 5. On a group that has a member without an error flag and without a number, mean,
  maximum and minimum are still those of the specification, but the standard deviation is
  \<^verbatim>\<open>NaN\<close> and not the population standard deviation: the loop that sums the squared
  deviations tests only the error flag.
\<close>

theorem deviation_not_population_std:
  "(specRequests g \<noteq> []
      \<and> (\<forall>r \<in> set g. \<not> IResult.error r \<longrightarrow> IResult.httpRequests r \<noteq> None) \<longrightarrow>
      aggregateGroup g a =
        a\<lparr> httpRequests := Some (Num (populationMean (specRequests g))),
           httpRequestsMax := Some (Num (Max (set (specRequests g)))),
           httpRequestsMin := Some (Num (Min (set (specRequests g)))),
           httpRequestsStd := Some (Num (populationStd (specRequests g))) \<rparr>)
   \<and> aggregateGroup [exampleResult n0 tpl (Some 10) False, exampleResult n1 tpl (Some 20) False,
                      exampleResult n2 tpl h True] a =
       a\<lparr> httpRequests := Some (Num 15), httpRequestsMax := Some (Num 20),
          httpRequestsMin := Some (Num 10), httpRequestsStd := Some (Num 5) \<rparr>
   \<and> (specRequests g \<noteq> []
      \<and> (\<exists>res \<in> set g. \<not> IResult.error res \<and> IResult.httpRequests res = None) \<longrightarrow>
      httpRequests (aggregateGroup g a) = Some (Num (populationMean (specRequests g)))
      \<and> httpRequestsMax (aggregateGroup g a) = Some (Num (Max (set (specRequests g))))
      \<and> httpRequestsMin (aggregateGroup g a) = Some (Num (Min (set (specRequests g))))
      \<and> httpRequestsStd (aggregateGroup g a) = Some NaN
      \<and> httpRequestsStd (aggregateGroup g a) \<noteq> Some (Num (populationStd (specRequests g))))"
proof (intro conjI impI)
  assume "specRequests g \<noteq> []
      \<and> (\<forall>r \<in> set g. \<not> IResult.error r \<longrightarrow> IResult.httpRequests r \<noteq> None)"
  then show "aggregateGroup g a =
        a\<lparr> httpRequests := Some (Num (populationMean (specRequests g))),
           httpRequestsMax := Some (Num (Max (set (specRequests g)))),
           httpRequestsMin := Some (Num (Min (set (specRequests g)))),
           httpRequestsStd := Some (Num (populationStd (specRequests g))) \<rparr>"
    using aggregateGroup_agrees [of g a] by blast
next
  show "aggregateGroup [exampleResult n0 tpl (Some 10) False, exampleResult n1 tpl (Some 20) False,
                      exampleResult n2 tpl h True] a =
       a\<lparr> httpRequests := Some (Num 15), httpRequestsMax := Some (Num 20),
          httpRequestsMin := Some (Num 10), httpRequestsStd := Some (Num 5) \<rparr>"
    by (simp add: exampleResult_def aggregateGroup_def Let_def)
next
  assume h: "specRequests g \<noteq> []
      \<and> (\<exists>res \<in> set g. \<not> IResult.error res \<and> IResult.httpRequests res = None)"
  then have ne: "successfulRequests g \<noteq> []" by (simp add: specRequests_eq)
  from aggregateGroup_first_three [OF ne, of a]
  show "httpRequests (aggregateGroup g a) = Some (Num (populationMean (specRequests g)))"
    and "httpRequestsMax (aggregateGroup g a) = Some (Num (Max (set (specRequests g))))"
    and "httpRequestsMin (aggregateGroup g a) = Some (Num (Min (set (specRequests g))))"
    by (simp_all add: specRequests_eq populationMean_def)
  from h obtain res where "res \<in> set g" "\<not> IResult.error res" "IResult.httpRequests res = None"
    by blast
  with h show nan: "httpRequestsStd (aggregateGroup g a) = Some NaN"
    using aggregateGroup_deviation_NaN [of g res a] by blast
  show "httpRequestsStd (aggregateGroup g a) \<noteq> Some (Num (populationStd (specRequests g)))"
    unfolding nan by simp
qed

theorem deviation_not_population_std_witness:
  "specRequests groupWithoutNumber = [10, 20]
   \<and> populationMean [10, 20] = 15
   \<and> populationStd [10, 20] = 5
   \<and> httpRequests (aggregateGroup groupWithoutNumber (emptyAggregate ''T1'')) = Some (Num 15)
   \<and> httpRequestsMax (aggregateGroup groupWithoutNumber (emptyAggregate ''T1'')) = Some (Num 20)
   \<and> httpRequestsMin (aggregateGroup groupWithoutNumber (emptyAggregate ''T1'')) = Some (Num 10)
   \<and> httpRequestsStd (aggregateGroup groupWithoutNumber (emptyAggregate ''T1'')) = Some NaN
   \<and> specRequests groupWithError = [2, 4, 4, 4, 5, 5, 7, 9]
   \<and> aggregateGroup groupWithError (emptyAggregate ''T1'') =
       \<lparr> name = ''T1'', httpRequests = Some (Num 5), httpRequestsMax = Some (Num 9),
         httpRequestsMin = Some (Num 2), httpRequestsStd = Some (Num 2) \<rparr>"
proof -
  have s1: "specRequests groupWithoutNumber = [10, 20]"
    by (simp add: specRequests_def groupWithoutNumber_def exampleResult_def)
  have s2: "specRequests groupWithError = [2, 4, 4, 4, 5, 5, 7, 9]"
    by (simp add: specRequests_def groupWithError_def exampleResult_def)
  have m: "populationMean [10, 20] = 15" by (simp add: populationMean_def)
  have d: "populationStd [10, 20] = 5" by (simp add: populationStd_def populationMean_def)
  have bad: "\<exists>res \<in> set groupWithoutNumber. \<not> IResult.error res \<and> IResult.httpRequests res = None"
    by (simp add: groupWithoutNumber_def exampleResult_def)
  have good: "\<forall>r \<in> set groupWithError. \<not> IResult.error r \<longrightarrow> IResult.httpRequests r \<noteq> None"
    by (simp add: groupWithError_def exampleResult_def)
  have m2: "populationMean [2, 4, 4, 4, 5, 5, 7, 9] = 5" by (simp add: populationMean_def)
  have d2: "populationStd [2, 4, 4, 4, 5, 5, 7, 9] = 2"
    by (simp add: populationStd_def populationMean_def)
  from deviation_not_population_std [of groupWithoutNumber "emptyAggregate ''T1''"] bad
  have "httpRequests (aggregateGroup groupWithoutNumber (emptyAggregate ''T1'')) = Some (Num 15)"
    and "httpRequestsMax (aggregateGroup groupWithoutNumber (emptyAggregate ''T1'')) = Some (Num 20)"
    and "httpRequestsMin (aggregateGroup groupWithoutNumber (emptyAggregate ''T1'')) = Some (Num 10)"
    and "httpRequestsStd (aggregateGroup groupWithoutNumber (emptyAggregate ''T1'')) = Some NaN"
    by (simp_all add: s1 m)
  moreover from deviation_not_population_std [of groupWithError "emptyAggregate ''T1''"] good
  have "aggregateGroup groupWithError (emptyAggregate ''T1'') =
       \<lparr> name = ''T1'', httpRequests = Some (Num 5), httpRequestsMax = Some (Num 9),
         httpRequestsMin = Some (Num 2), httpRequestsStd = Some (Num 2) \<rparr>"
    by (simp add: s2 m2 d2 emptyAggregate_def)
  ultimately show ?thesis using s1 s2 m d by simp
qed


section \<open>Properties of the metadata loader\<close>








end
